theory Spec2Isabelle
  imports Main "HOL-Library.AList"
begin

unbundle bit_operations_syntax

section \<open>Values\<close>

text \<open>
  The values the client exchanges with the remote service are parsed JSON documents
  (\<^verbatim>\<open>requests.post(...).json()\<close>). Numbers are the integers of the
  service's envelope (\<^verbatim>\<open>code\<close>, \<^verbatim>\<open>expire\<close>); Python's \<^verbatim>\<open>None\<close> is \<open>JNull\<close>.
  A dict is an association list in insertion order; a key is looked up with
  \<^const>\<open>map_of\<close> and set with \<^const>\<open>AList.update\<close>, which replaces in place or appends,
  as a Python dict does.
\<close>

datatype json =
    JNull
  | JBool bool
  | JNum int
  | JStr string
  | JList "json list"
  | JObj "(string \<times> json) list"

text \<open>The exceptions the code can end with. The second component of
  \<open>TransportError\<close> is whatever \<^verbatim>\<open>requests\<close> raised.\<close>

datatype error =
    ValueError string
  | KeyError string
  | TypeError
  | AttributeError string
  | OverflowError
  | TransportError string

text \<open>Python truthiness (\<^verbatim>\<open>if x:\<close>, \<^verbatim>\<open>not x\<close>).\<close>

fun truthy :: "json \<Rightarrow> bool" where
  "truthy JNull = False"
| "truthy (JBool b) = b"
| "truthy (JNum n) = (n \<noteq> 0)"
| "truthy (JStr s) = (s \<noteq> [])"
| "truthy (JList xs) = (xs \<noteq> [])"
| "truthy (JObj kvs) = (kvs \<noteq> [])"

text \<open>\<^verbatim>\<open>os.getenv\<close> gives \<^verbatim>\<open>None\<close> or a string; both \<^verbatim>\<open>None\<close> and the
  empty string are falsy.\<close>

fun env_json :: "string option \<Rightarrow> json" where
  "env_json None = JNull"
| "env_json (Some s) = JStr s"

definition env_truthy :: "string option \<Rightarrow> bool" where
  "env_truthy v = truthy (env_json v)"

text \<open>\<^verbatim>\<open>d[k]\<close>: a missing key of a dict raises \<^verbatim>\<open>KeyError\<close>; a string key on
  any other JSON value raises \<^verbatim>\<open>TypeError\<close>.\<close>

fun subscript :: "json \<Rightarrow> string \<Rightarrow> error + json" where
  "subscript (JObj kvs) k = (case map_of kvs k of None \<Rightarrow> Inl (KeyError k) | Some v \<Rightarrow> Inr v)"
| "subscript _ k = Inl TypeError"

section \<open>Configuration and the enabled flag\<close>

text \<open>The five environment variables read when the module is loaded.\<close>

record config =
  FEISHU_APP_ID :: "string option"
  FEISHU_APP_SECRET :: "string option"
  FEISHU_PHONE :: "string option"
  FEISHU_EMAIL :: "string option"
  FEISHU_OPEN_ID :: "string option"

text \<open>Python's \<^verbatim>\<open>all\<close> and \<^verbatim>\<open>any\<close> over a tuple of truth values.\<close>

definition py_all :: "bool list \<Rightarrow> bool" where
  "py_all bs = list_all (\<lambda>b. b) bs"

definition py_any :: "bool list \<Rightarrow> bool" where
  "py_any bs = list_ex (\<lambda>b. b) bs"

text \<open>\<^verbatim>\<open>ENABLE = True if all((FEISHU_APP_ID, FEISHU_APP_SECRET,
  any((FEISHU_OPEN_ID, FEISHU_PHONE, FEISHU_EMAIL)))) else False\<close>\<close>

definition ENABLE :: "config \<Rightarrow> bool" where
  "ENABLE c =
     (if py_all [env_truthy (FEISHU_APP_ID c), env_truthy (FEISHU_APP_SECRET c),
                 py_any [env_truthy (FEISHU_OPEN_ID c), env_truthy (FEISHU_PHONE c),
                         env_truthy (FEISHU_EMAIL c)]]
      then True else False)"

section \<open>Requests, the remote service and the state of the process\<close>

text \<open>The inputs of a send operation: an opened binary file (\<^verbatim>\<open>BufferedReader\<close>, with
  its \<^verbatim>\<open>name\<close> and its content), raw \<^verbatim>\<open>bytes\<close>, or a \<^verbatim>\<open>str\<close>.\<close>

type_synonym bytes = "char list"

datatype file_obj =
    Reader string bytes
  | Bytes bytes
  | Str string

text \<open>A field of the multipart form: a plain string, or the tuple
  \<^verbatim>\<open>(filename, file)\<close>.\<close>

datatype part =
    Text string
  | FileTuple string file_obj

text \<open>What \<^verbatim>\<open>requests.post(url, **kwargs)\<close> is called with: \<open>None\<close> is a keyword
  that was not passed.\<close>

record request =
  url :: string
  headers :: "(string \<times> string) list"
  params :: "(string \<times> string) list option"
  json_body :: "json option"
  data :: "(string \<times> part) list option"

record kwargs =
  kw_headers :: "(string \<times> string) list option"
  kw_params :: "(string \<times> string) list option"
  kw_json :: "json option"
  kw_data :: "(string \<times> part) list option"

definition no_kwargs :: kwargs where
  "no_kwargs = \<lparr>kw_headers = None, kw_params = None, kw_json = None, kw_data = None\<rparr>"

text \<open>
  Everything outside the repository is a parameter:
  \<^item> \<open>respond\<close>: the remote service and the transport. Given the requests made so far
    and the next one, it gives what \<^verbatim>\<open>requests.post(...).json()\<close> returns or raises,
    and the microseconds the call took;
  \<^item> \<open>repr\<close>: Python's \<^verbatim>\<open>repr\<close> of a value that is not a string (what an f-string
    prints for it);
  \<^item> \<open>dumps\<close>: \<^verbatim>\<open>json.dumps\<close>;
  \<^item> \<open>content_type\<close>: the header \<^verbatim>\<open>MultipartEncoder(fields).content_type\<close>;
  \<^item> \<open>cv2\<close>: \<open>None\<close> when \<^verbatim>\<open>import cv2\<close> failed, else the first frame of the video
    file of a given name, encoded as JPEG
    (\<^verbatim>\<open>cv2.imencode(".jpg", cv2.VideoCapture(name).read()[1])[1].tobytes()\<close>), or the
    exception that raises.
\<close>

record ext =
  respond :: "request list \<Rightarrow> request \<Rightarrow> (error + json) \<times> nat"
  repr :: "json \<Rightarrow> string"
  dumps :: "json \<Rightarrow> string"
  content_type :: "(string \<times> part) list \<Rightarrow> string"
  cv2 :: "(string \<Rightarrow> error + bytes) option"

text \<open>\<^verbatim>\<open>str(v)\<close>, as an f-string field \<^verbatim>\<open>{v}\<close> prints it.\<close>

fun py_str :: "ext \<Rightarrow> json \<Rightarrow> string" where
  "py_str E (JStr s) = s"
| "py_str E v = repr E v"

text \<open>
  The state of the process: the clock (\<^verbatim>\<open>datetime.now()\<close>, in microseconds since
  0001-01-01), the requests made so far (oldest first), the warnings logged so far, and
  the two fields of the one \<^verbatim>\<open>TenantToken\<close> descriptor, which is a class attribute
  of \<^verbatim>\<open>FeiShuBot\<close> and so shared by all clients.
\<close>

record world =
  clock :: int
  calls :: "request list"
  logs :: "string list"
  token :: json
  expire_at :: int

text \<open>A computation returns a value or raises, and leaves a state either way.\<close>

type_synonym 'a result = "(error + 'a) \<times> world"

definition TENANT_TOKEN_API :: string where
  "TENANT_TOKEN_API = ''https://open.feishu.cn/open-apis/auth/v3/tenant_access_token/internal''"

definition USER_ID_API :: string where
  "USER_ID_API = ''https://open.feishu.cn/open-apis/contact/v3/users/batch_get_id''"

definition MESSAGE_API :: string where
  "MESSAGE_API = ''https://open.feishu.cn/open-apis/im/v1/messages''"

definition UPLOAD_IMAGE_API :: string where
  "UPLOAD_IMAGE_API = ''https://open.feishu.cn/open-apis/im/v1/images''"

definition UPLOAD_FILE_API :: string where
  "UPLOAD_FILE_API = ''https://open.feishu.cn/open-apis/im/v1/files''"

text \<open>\<^verbatim>\<open>requests.post(url, **kwargs).json()\<close>: the call is recorded and the clock moves
  on by the time it took.\<close>

definition requests_post :: "ext \<Rightarrow> request \<Rightarrow> world \<Rightarrow> json result" where
  "requests_post E req w =
     (case respond E (calls w) req of
        (r, dt) \<Rightarrow> (r, w\<lparr>clock := clock w + int dt, calls := calls w @ [req]\<rparr>))"

text \<open>The headers \<^verbatim>\<open>_post\<close> sends: the caller's, or the JSON content type when none
  were passed; then the bearer token when it is truthy.\<close>

definition post_headers :: "ext \<Rightarrow> json \<Rightarrow> kwargs \<Rightarrow> (string \<times> string) list" where
  "post_headers E tok kw =
     (let hs = (case kw_headers kw of
                  None \<Rightarrow> [(''Content-Type'', ''application/json'')]
                | Some h \<Rightarrow> h)
      in if truthy tok then AList.update ''authorization'' (''Bearer '' @ py_str E tok) hs
         else hs)"

definition post_request :: "ext \<Rightarrow> string \<Rightarrow> json \<Rightarrow> kwargs \<Rightarrow> request" where
  "post_request E u tok kw =
     \<lparr>url = u, headers = post_headers E tok kw, params = kw_params kw,
      json_body = kw_json kw, data = kw_data kw\<rparr>"

text \<open>\<^verbatim>\<open>_post(url, token, **kwargs)\<close>\<close>

definition post :: "ext \<Rightarrow> string \<Rightarrow> json \<Rightarrow> kwargs \<Rightarrow> world \<Rightarrow> json result" where
  "post E u tok kw w =
     (case requests_post E (post_request E u tok kw) w of
        (Inl e, w') \<Rightarrow> (Inl e, w')
      | (Inr resp, w') \<Rightarrow>
          (case subscript resp ''code'' of
             Inl e \<Rightarrow> (Inl e, w')
           | Inr c \<Rightarrow>
               if truthy c then
                 (case subscript resp ''msg'' of
                    Inl e \<Rightarrow> (Inl e, w')
                  | Inr m \<Rightarrow> (Inl (ValueError (''Message failed: '' @ py_str E m)), w'))
               else (Inr resp, w')))"

section \<open>The tenant access token\<close>

text \<open>
  \<^verbatim>\<open>timedelta(seconds=x)\<close> takes an integer (a \<^verbatim>\<open>bool\<close> is one) and raises
  \<^verbatim>\<open>OverflowError\<close> beyond 999999999 days; a \<^verbatim>\<open>datetime\<close> lies in the years 1 to
  9999, and an addition that leaves them raises \<^verbatim>\<open>OverflowError\<close>.
\<close>

fun timedelta_seconds :: "json \<Rightarrow> error + int" where
  "timedelta_seconds (JNum n) =
     (if - 999999999 \<le> n div 86400 \<and> n div 86400 \<le> 999999999 then Inr (n * 1000000)
      else Inl OverflowError)"
| "timedelta_seconds (JBool b) = Inr (if b then 1000000 else 0)"
| "timedelta_seconds _ = Inl TypeError"

definition datetime_max :: int where
  "datetime_max = 3652059 * 86400 * 1000000"

definition datetime_add :: "int \<Rightarrow> int \<Rightarrow> error + int" where
  "datetime_add td t =
     (if 0 \<le> td + t \<and> td + t < datetime_max then Inr (td + t) else Inl OverflowError)"

text \<open>\<^verbatim>\<open>TenantToken.__init__\<close>: the fields of the descriptor when the class is created
  at time \<open>t0\<close>, in a process that has made no request and logged nothing.\<close>

definition TenantToken_init :: "int \<Rightarrow> world" where
  "TenantToken_init t0 = \<lparr>clock = t0, calls = [], logs = [], token = JStr [], expire_at = t0\<rparr>"

definition auth_body :: "config \<Rightarrow> json" where
  "auth_body c =
     JObj [(''app_id'', env_json (FEISHU_APP_ID c)),
           (''app_secret'', env_json (FEISHU_APP_SECRET c))]"

text \<open>\<^verbatim>\<open>TenantToken.request_token\<close>. The token is assigned before the expiry is
  computed, so an exception of the second statement leaves the new token with the old
  expiry.\<close>

definition request_token :: "config \<Rightarrow> ext \<Rightarrow> world \<Rightarrow> unit result" where
  "request_token c E w =
     (case post E TENANT_TOKEN_API (JStr []) (no_kwargs\<lparr>kw_json := Some (auth_body c)\<rparr>) w of
        (Inl e, w1) \<Rightarrow> (Inl e, w1)
      | (Inr resp, w1) \<Rightarrow>
          (case subscript resp ''tenant_access_token'' of
             Inl e \<Rightarrow> (Inl e, w1)
           | Inr t \<Rightarrow>
               (let w2 = w1\<lparr>token := t\<rparr> in
                case subscript resp ''expire'' of
                  Inl e \<Rightarrow> (Inl e, w2)
                | Inr x \<Rightarrow>
                    (case timedelta_seconds x of
                       Inl e \<Rightarrow> (Inl e, w2)
                     | Inr td \<Rightarrow>
                         (case datetime_add td (clock w2) of
                            Inl e \<Rightarrow> (Inl e, w2)
                          | Inr t' \<Rightarrow> (Inr (), w2\<lparr>expire_at := t'\<rparr>))))))"

text \<open>\<^verbatim>\<open>TenantToken.__get__\<close>: what reading \<^verbatim>\<open>self.token\<close> does.\<close>

definition TenantToken_get :: "config \<Rightarrow> ext \<Rightarrow> world \<Rightarrow> json result" where
  "TenantToken_get c E w =
     (if \<not> truthy (token w) \<or> expire_at w < clock w then
        (case request_token c E w of
           (Inl e, w') \<Rightarrow> (Inl e, w')
         | (Inr u, w') \<Rightarrow> (Inr (token w'), w'))
      else (Inr (token w), w))"

section \<open>Recipient resolution\<close>

text \<open>\<^verbatim>\<open>for user in xs\<close> over a JSON value: a list gives its elements, a dict its keys,
  a string its characters; nothing else is iterable.\<close>

fun py_iter :: "json \<Rightarrow> error + json list" where
  "py_iter (JList xs) = Inr xs"
| "py_iter (JObj kvs) = Inr (map (\<lambda>kv. JStr (fst kv)) kvs)"
| "py_iter (JStr s) = Inr (map (\<lambda>ch. JStr [ch]) s)"
| "py_iter _ = Inl TypeError"

fun is_substring :: "string \<Rightarrow> string \<Rightarrow> bool" where
  "is_substring p [] = (p = [])"
| "is_substring p (ch # s) = (take (length p) (ch # s) = p \<or> is_substring p s)"

text \<open>\<^verbatim>\<open>k in v\<close> for a string \<open>k\<close>: a key of a dict, an element of a list, a substring
  of a string.\<close>

fun py_in :: "string \<Rightarrow> json \<Rightarrow> error + bool" where
  "py_in k (JObj kvs) = Inr (map_of kvs k \<noteq> None)"
| "py_in k (JList xs) = Inr (List.member xs (JStr k))"
| "py_in k (JStr s) = Inr (is_substring k s)"
| "py_in k _ = Inl TypeError"

text \<open>The loop of \<^verbatim>\<open>get_open_id\<close>; \<open>None\<close> is the loop running to its end.\<close>

fun first_user_id :: "json list \<Rightarrow> (error + json) option" where
  "first_user_id [] = None"
| "first_user_id (user # users) =
     (case py_in ''user_id'' user of
        Inl e \<Rightarrow> Some (Inl e)
      | Inr found \<Rightarrow> if found then Some (subscript user ''user_id'') else first_user_id users)"

definition lookup_body :: "config \<Rightarrow> json" where
  "lookup_body c =
     JObj ((if env_truthy (FEISHU_PHONE c)
            then [(''mobiles'', JList [env_json (FEISHU_PHONE c)])] else []) @
           (if env_truthy (FEISHU_EMAIL c)
            then [(''emails'', JList [env_json (FEISHU_EMAIL c)])] else []))"

definition config_error :: error where
  "config_error = ValueError (''To query open_id when FEISHU_OPEN_ID isn't set, FEISHU_PHONE '' @
     ''or FEISHU_EMAIL must be set with your phone or email.'')"

definition lookup_error :: "config \<Rightarrow> ext \<Rightarrow> error" where
  "lookup_error c E =
     ValueError (''Query open_id failed: no user_id found. body='' @ repr E (lookup_body c))"

text \<open>\<^verbatim>\<open>get_open_id(token)\<close>\<close>

definition get_open_id :: "config \<Rightarrow> ext \<Rightarrow> json \<Rightarrow> world \<Rightarrow> json result" where
  "get_open_id c E tok w =
     (if \<not> py_any [env_truthy (FEISHU_PHONE c), env_truthy (FEISHU_EMAIL c)] then
        (Inl config_error, w)
      else
        (case post E USER_ID_API tok
                (no_kwargs\<lparr>kw_params := Some [(''user_id_type'', ''open_id'')],
                            kw_json := Some (lookup_body c)\<rparr>) w of
           (Inl e, w1) \<Rightarrow> (Inl e, w1)
         | (Inr resp, w1) \<Rightarrow>
             (case subscript resp ''data'' of
                Inl e \<Rightarrow> (Inl e, w1)
              | Inr d \<Rightarrow>
                  (case subscript d ''user_list'' of
                     Inl e \<Rightarrow> (Inl e, w1)
                   | Inr ul \<Rightarrow>
                       (case py_iter ul of
                          Inl e \<Rightarrow> (Inl e, w1)
                        | Inr users \<Rightarrow>
                            (case first_user_id users of
                               Some r \<Rightarrow> (r, w1)
                             | None \<Rightarrow> (Inl (lookup_error c E), w1)))))))"

section \<open>The client\<close>

text \<open>A client instance has one attribute of its own, \<^verbatim>\<open>user_id\<close>, which
  \<^verbatim>\<open>__init__\<close> sets or leaves unset.\<close>

record bot =
  user_id :: "json option"

text \<open>\<^verbatim>\<open>FeiShuBot.__init__\<close>: \<^verbatim>\<open>FEISHU_OPEN_ID or get_open_id(self.token)\<close> reads the
  token, and then resolves, only when the configured identifier is falsy.\<close>

definition FeiShuBot_init :: "config \<Rightarrow> ext \<Rightarrow> world \<Rightarrow> bot result" where
  "FeiShuBot_init c E w =
     (if \<not> ENABLE c then (Inr \<lparr>user_id = None\<rparr>, w)
      else if env_truthy (FEISHU_OPEN_ID c) then
        (Inr \<lparr>user_id = Some (env_json (FEISHU_OPEN_ID c))\<rparr>, w)
      else
        (case TenantToken_get c E w of
           (Inl e, w1) \<Rightarrow> (Inl e, w1)
         | (Inr tok, w1) \<Rightarrow>
             (case get_open_id c E tok w1 of
                (Inl e, w2) \<Rightarrow> (Inl e, w2)
              | (Inr uid, w2) \<Rightarrow> (Inr \<lparr>user_id = Some uid\<rparr>, w2))))"

text \<open>
  \<^verbatim>\<open>FeiShuBot.__getattribute__\<close>: the normal attribute when enabled; otherwise the
  empty string for \<^verbatim>\<open>token\<close> and, for every other name, the function \<^verbatim>\<open>wrap\<close>
  closed over the name.
\<close>

datatype attribute =
    Super string
  | Value json
  | Wrap string

definition getattribute :: "config \<Rightarrow> string \<Rightarrow> attribute" where
  "getattribute c name =
     (if ENABLE c then Super name
      else if name = ''token'' then Value (JStr [])
      else Wrap name)"

text \<open>Calling \<^verbatim>\<open>wrap(*_, **__)\<close>: whatever the arguments, it logs the warning and
  returns \<^verbatim>\<open>None\<close>.\<close>

definition wrap :: "string \<Rightarrow> world \<Rightarrow> json result" where
  "wrap name w =
     (Inr JNull, w\<lparr>logs := logs w @ [''FeiShuBot is disabled, '' @ name @ '' is unavailable.'']\<rparr>)"

section \<open>The send operations\<close>

text \<open>
  The bodies of the methods below are what runs under the normal attribute lookup, the
  enabled branch of \<^verbatim>\<open>__getattribute__\<close>; \<open>invoke\<close> at the end of the section puts
  the gate in front of them.
\<close>

definition message_body :: "ext \<Rightarrow> json \<Rightarrow> string \<Rightarrow> json \<Rightarrow> json" where
  "message_body E uid msg_type content =
     JObj [(''receive_id'', uid), (''msg_type'', JStr msg_type),
           (''content'', JStr (dumps E content))]"

text \<open>\<^verbatim>\<open>FeiShuBot._send_message\<close>: the arguments of \<^verbatim>\<open>_post\<close> are evaluated left to
  right, so the token is read before \<^verbatim>\<open>self.user_id\<close>.\<close>

definition send_message :: "config \<Rightarrow> ext \<Rightarrow> bot \<Rightarrow> string \<Rightarrow> json \<Rightarrow> world \<Rightarrow> json result" where
  "send_message c E b msg_type content w =
     (case TenantToken_get c E w of
        (Inl e, w1) \<Rightarrow> (Inl e, w1)
      | (Inr tok, w1) \<Rightarrow>
          (case user_id b of
             None \<Rightarrow> (Inl (AttributeError ''user_id''), w1)
           | Some uid \<Rightarrow>
               post E MESSAGE_API tok
                 (no_kwargs\<lparr>kw_params := Some [(''receive_id_type'', ''open_id'')],
                             kw_json := Some (message_body E uid msg_type content)\<rparr>) w1))"

text \<open>\<^verbatim>\<open>os.path.basename\<close> (POSIX): what follows the last slash.\<close>

definition basename :: "string \<Rightarrow> string" where
  "basename p = rev (takeWhile (\<lambda>ch. ch \<noteq> CHR ''/'') (rev p))"

definition upload_filename :: "file_obj \<Rightarrow> string \<Rightarrow> string" where
  "upload_filename f filename =
     (if filename = [] then (case f of Reader name content \<Rightarrow> basename name | _ \<Rightarrow> ''file'')
      else filename)"

definition upload_target :: "string \<Rightarrow> file_obj \<Rightarrow> string \<Rightarrow> string \<times> (string \<times> part) list" where
  "upload_target file_type f filename =
     (if file_type = ''image'' then
        (UPLOAD_IMAGE_API, [(''image_type'', Text ''message''), (''image'', FileTuple filename f)])
      else
        (UPLOAD_FILE_API,
         [(''file_type'', Text file_type), (''file'', FileTuple filename f),
          (''filename'', Text filename)]))"

text \<open>\<^verbatim>\<open>FeiShuBot._post_file\<close>\<close>

definition post_file :: "config \<Rightarrow> ext \<Rightarrow> string \<Rightarrow> file_obj \<Rightarrow> string \<Rightarrow> world \<Rightarrow> json result" where
  "post_file c E file_type f filename w =
     (case upload_target file_type f (upload_filename f filename) of
        (u, form) \<Rightarrow>
          (case TenantToken_get c E w of
             (Inl e, w1) \<Rightarrow> (Inl e, w1)
           | (Inr tok, w1) \<Rightarrow>
               (case post E u tok
                       (no_kwargs\<lparr>kw_data := Some form,
                                   kw_headers := Some [(''Content-Type'', content_type E form)]\<rparr>)
                       w1 of
                  (Inl e, w2) \<Rightarrow> (Inl e, w2)
                | (Inr resp, w2) \<Rightarrow>
                    (case subscript resp ''data'' of
                       Inl e \<Rightarrow> (Inl e, w2)
                     | Inr d \<Rightarrow> (Inr d, w2)))))"

definition send_text :: "config \<Rightarrow> ext \<Rightarrow> bot \<Rightarrow> string \<Rightarrow> world \<Rightarrow> json result" where
  "send_text c E b msg w = send_message c E b ''text'' (JObj [(''text'', JStr msg)]) w"

definition send_image :: "config \<Rightarrow> ext \<Rightarrow> bot \<Rightarrow> file_obj \<Rightarrow> world \<Rightarrow> json result" where
  "send_image c E b img w =
     (case post_file c E ''image'' img [] w of
        (Inl e, w1) \<Rightarrow> (Inl e, w1)
      | (Inr d, w1) \<Rightarrow> send_message c E b ''image'' d w1)"

definition send_file :: "config \<Rightarrow> ext \<Rightarrow> bot \<Rightarrow> file_obj \<Rightarrow> string \<Rightarrow> string \<Rightarrow> world \<Rightarrow> json result" where
  "send_file c E b f file_type filename w =
     (case post_file c E file_type f filename w of
        (Inl e, w1) \<Rightarrow> (Inl e, w1)
      | (Inr d, w1) \<Rightarrow> send_message c E b ''file'' d w1)"

definition send_audio :: "config \<Rightarrow> ext \<Rightarrow> bot \<Rightarrow> file_obj \<Rightarrow> world \<Rightarrow> json result" where
  "send_audio c E b audio w =
     (case post_file c E ''opus'' audio [] w of
        (Inl e, w1) \<Rightarrow> (Inl e, w1)
      | (Inr d, w1) \<Rightarrow> send_message c E b ''audio'' d w1)"

text \<open>Truthiness of a file argument (\<^verbatim>\<open>if not cover\<close>): an opened file is an object
  and so truthy; bytes and strings are truthy when not empty.\<close>

fun file_truthy :: "file_obj \<Rightarrow> bool" where
  "file_truthy (Reader name content) = True"
| "file_truthy (Bytes bs) = (bs \<noteq> [])"
| "file_truthy (Str s) = (s \<noteq> [])"

definition bool_int :: "bool \<Rightarrow> int" where
  "bool_int b = (if b then 1 else 0)"

text \<open>\<^verbatim>\<open>a | b\<close>: the union of two dicts, in which the right operand wins and new keys
  are appended; on integers and booleans it is the bitwise or; on anything else of JSON
  it raises \<^verbatim>\<open>TypeError\<close>.\<close>

fun py_or :: "json \<Rightarrow> json \<Rightarrow> error + json" where
  "py_or (JObj xs) (JObj ys) = Inr (JObj (foldl (\<lambda>acc kv. AList.update (fst kv) (snd kv) acc) xs ys))"
| "py_or (JBool x) (JBool y) = Inr (JBool (x \<or> y))"
| "py_or (JBool x) (JNum y) = Inr (JNum (bool_int x OR y))"
| "py_or (JNum x) (JBool y) = Inr (JNum (x OR bool_int y))"
| "py_or (JNum x) (JNum y) = Inr (JNum (x OR y))"
| "py_or _ _ = Inl TypeError"

definition cv2_warning :: string where
  "cv2_warning = ''opencv-python is not installed, send_media is unavailable''"

text \<open>The cover \<^verbatim>\<open>send_media\<close> uploads: the one given when it is truthy, else the
  first frame of the opened video file.\<close>

definition media_cover :: "(string \<Rightarrow> error + bytes) \<Rightarrow> file_obj \<Rightarrow> file_obj \<Rightarrow> error + file_obj" where
  "media_cover first_frame media cover =
     (if \<not> file_truthy cover then
        (case media of
           Reader name content \<Rightarrow>
             (case first_frame name of Inl e \<Rightarrow> Inl e | Inr jpg \<Rightarrow> Inr (Bytes jpg))
         | _ \<Rightarrow> Inl (ValueError ''Cover must be set when media is not an opened file''))
      else Inr cover)"

text \<open>\<^verbatim>\<open>FeiShuBot.send_media\<close>\<close>

definition send_media :: "config \<Rightarrow> ext \<Rightarrow> bot \<Rightarrow> file_obj \<Rightarrow> file_obj \<Rightarrow> world \<Rightarrow> json result" where
  "send_media c E b media cover w =
     (case cv2 E of
        None \<Rightarrow> (Inr (JObj []), w\<lparr>logs := logs w @ [cv2_warning]\<rparr>)
      | Some first_frame \<Rightarrow>
          (case media_cover first_frame media cover of
             Inl e \<Rightarrow> (Inl e, w)
           | Inr cover' \<Rightarrow>
               (case post_file c E ''mp4'' media [] w of
                  (Inl e, w1) \<Rightarrow> (Inl e, w1)
                | (Inr d1, w1) \<Rightarrow>
                    (case post_file c E ''image'' cover' [] w1 of
                       (Inl e, w2) \<Rightarrow> (Inl e, w2)
                     | (Inr d2, w2) \<Rightarrow>
                         (case py_or d1 d2 of
                            Inl e \<Rightarrow> (Inl e, w2)
                          | Inr content \<Rightarrow> send_message c E b ''media'' content w2)))))"

definition card_content :: "string \<Rightarrow> string \<Rightarrow> json" where
  "card_content message header =
     (let content =
            [(''config'', JObj [(''wide_screen_mode'', JBool True)]),
             (''elements'', JList [JObj [(''tag'', JStr ''markdown''), (''content'', JStr message)]])]
      in JObj (if header \<noteq> [] then
                 AList.update ''header''
                   (JObj [(''title'', JObj [(''tag'', JStr ''plain_text''), (''content'', JStr header)]),
                          (''template'', JStr ''blue'')])
                   content
               else content))"

text \<open>\<^verbatim>\<open>FeiShuBot.send_card\<close>: the method has no \<^verbatim>\<open>return\<close>, so a successful call
  gives \<^verbatim>\<open>None\<close>.\<close>

definition send_card :: "config \<Rightarrow> ext \<Rightarrow> bot \<Rightarrow> string \<Rightarrow> string \<Rightarrow> world \<Rightarrow> json result" where
  "send_card c E b message header w =
     (case send_message c E b ''interactive'' (card_content message header) w of
        (Inl e, w1) \<Rightarrow> (Inl e, w1)
      | (Inr resp, w1) \<Rightarrow> (Inr JNull, w1))"

text \<open>A call of one of the public operations on a client, with its arguments (the
  defaults \<^verbatim>\<open>filename=""\<close>, \<^verbatim>\<open>cover=b""\<close>, \<^verbatim>\<open>header=""\<close> written out by the
  caller).\<close>

datatype operation =
    SendText string
  | SendImage file_obj
  | SendFile file_obj string string
  | SendAudio file_obj
  | SendMedia file_obj file_obj
  | SendCard string string

fun operation_name :: "operation \<Rightarrow> string" where
  "operation_name (SendText msg) = ''send_text''"
| "operation_name (SendImage img) = ''send_image''"
| "operation_name (SendFile f file_type filename) = ''send_file''"
| "operation_name (SendAudio audio) = ''send_audio''"
| "operation_name (SendMedia media cover) = ''send_media''"
| "operation_name (SendCard message header) = ''send_card''"

fun call_method :: "config \<Rightarrow> ext \<Rightarrow> bot \<Rightarrow> operation \<Rightarrow> world \<Rightarrow> json result" where
  "call_method c E b (SendText msg) w = send_text c E b msg w"
| "call_method c E b (SendImage img) w = send_image c E b img w"
| "call_method c E b (SendFile f file_type filename) w = send_file c E b f file_type filename w"
| "call_method c E b (SendAudio audio) w = send_audio c E b audio w"
| "call_method c E b (SendMedia media cover) w = send_media c E b media cover w"
| "call_method c E b (SendCard message header) w = send_card c E b message header w"

text \<open>\<^verbatim>\<open>bot.send_xxx(...)\<close>: the attribute is looked up through
  \<^verbatim>\<open>__getattribute__\<close> and the result is called. Calling the string that the name
  \<^verbatim>\<open>token\<close> gives would raise \<^verbatim>\<open>TypeError\<close>.\<close>

definition invoke :: "config \<Rightarrow> ext \<Rightarrow> bot \<Rightarrow> operation \<Rightarrow> world \<Rightarrow> json result" where
  "invoke c E b opn w =
     (case getattribute c (operation_name opn) of
        Super name \<Rightarrow> call_method c E b opn w
      | Value v \<Rightarrow> (Inl TypeError, w)
      | Wrap name \<Rightarrow> wrap name w)"

section \<open>Notions used in the statements\<close>

text \<open>The requests the client makes, written out.\<close>

definition token_request :: "config \<Rightarrow> request" where
  "token_request c =
     \<lparr>url = TENANT_TOKEN_API, headers = [(''Content-Type'', ''application/json'')],
      params = None, json_body = Some (auth_body c), data = None\<rparr>"

definition lookup_request :: "config \<Rightarrow> ext \<Rightarrow> json \<Rightarrow> request" where
  "lookup_request c E tok =
     \<lparr>url = USER_ID_API, headers = post_headers E tok no_kwargs,
      params = Some [(''user_id_type'', ''open_id'')], json_body = Some (lookup_body c),
      data = None\<rparr>"

definition message_request :: "ext \<Rightarrow> json \<Rightarrow> json \<Rightarrow> string \<Rightarrow> json \<Rightarrow> request" where
  "message_request E tok uid msg_type content =
     \<lparr>url = MESSAGE_API, headers = post_headers E tok no_kwargs,
      params = Some [(''receive_id_type'', ''open_id'')],
      json_body = Some (JObj [(''receive_id'', uid), (''msg_type'', JStr msg_type),
                              (''content'', JStr (dumps E content))]),
      data = None\<rparr>"

text \<open>A field of the JSON body of a request.\<close>

definition body_field :: "request \<Rightarrow> string \<Rightarrow> json option" where
  "body_field req k = (case json_body req of Some (JObj kvs) \<Rightarrow> map_of kvs k | _ \<Rightarrow> None)"

text \<open>The number of recipient lookups among the requests made so far.\<close>

definition lookup_calls :: "world \<Rightarrow> nat" where
  "lookup_calls w = length (filter (\<lambda>r. url r = USER_ID_API) (calls w))"

text \<open>A sequence of token requests, each made after a delay given in microseconds, and
  the number of them that find no token cached or the cached one expired.\<close>

fun token_requests :: "config \<Rightarrow> ext \<Rightarrow> nat list \<Rightarrow> world \<Rightarrow> world" where
  "token_requests c E [] w = w"
| "token_requests c E (d # ds) w =
     token_requests c E ds (snd (TenantToken_get c E (w\<lparr>clock := clock w + int d\<rparr>)))"

fun refreshes :: "config \<Rightarrow> ext \<Rightarrow> nat list \<Rightarrow> world \<Rightarrow> nat" where
  "refreshes c E [] w = 0"
| "refreshes c E (d # ds) w =
     (if \<not> truthy (token w) \<or> expire_at w < clock w + int d then 1 else 0) +
     refreshes c E ds (snd (TenantToken_get c E (w\<lparr>clock := clock w + int d\<rparr>)))"

text \<open>A JSON object, and one that has a given field.\<close>

fun is_object :: "json \<Rightarrow> bool" where
  "is_object (JObj kvs) = True"
| "is_object _ = False"

fun has_key :: "string \<Rightarrow> json \<Rightarrow> bool" where
  "has_key k (JObj kvs) = (map_of kvs k \<noteq> None)"
| "has_key k _ = False"

text \<open>A variable of the configuration is present when it is set and not empty (the
  repository's test disables the client by setting \<^verbatim>\<open>FEISHU_APP_ID\<close> to the empty
  string).\<close>

definition present :: "string option \<Rightarrow> bool" where
  "present v = (v \<noteq> None \<and> v \<noteq> Some [])"

section \<open>An example environment\<close>

text \<open>
  A small JSON printer and parser, a service that answers every endpoint with a
  well-formed envelope, one that rejects every request, and a configuration, a client
  and two states of the token cache. The concrete instances of the theorems below are
  evaluated on them.
\<close>

fun nat_digits :: "nat \<Rightarrow> string" where
  "nat_digits n =
     (if n < 10 then [char_of (48 + n)] else nat_digits (n div 10) @ [char_of (48 + n mod 10)])"

fun escape_char :: "char \<Rightarrow> string" where
  "escape_char ch =
     (if ch = CHR 0x22 then [CHR 0x5C, CHR 0x22]
      else if ch = CHR 0x5C then [CHR 0x5C, CHR 0x5C] else [ch])"

definition quoted :: "string \<Rightarrow> string" where
  "quoted s = CHR 0x22 # concat (map escape_char s) @ [CHR 0x22]"

fun join :: "string \<Rightarrow> string list \<Rightarrow> string" where
  "join sep [] = []"
| "join sep [x] = x"
| "join sep (x # y # ys) = x @ sep @ join sep (y # ys)"

fun json_text :: "json \<Rightarrow> string" where
  "json_text JNull = ''null''"
| "json_text (JBool b) = (if b then ''true'' else ''false'')"
| "json_text (JNum n) = (if n < 0 then CHR ''-'' # nat_digits (nat (- n)) else nat_digits (nat n))"
| "json_text (JStr s) = quoted s"
| "json_text (JList xs) = ''['' @ join '', '' (map json_text xs) @ '']''"
| "json_text (JObj kvs) =
     ''{'' @ join '', '' (map (\<lambda>(k, v). quoted k @ '': '' @ json_text v) kvs) @ ''}''"

fun skip_ws :: "string \<Rightarrow> string" where
  "skip_ws [] = []"
| "skip_ws (ch # s) = (if ch = CHR '' '' then skip_ws s else ch # s)"

fun parse_chars :: "string \<Rightarrow> (string \<times> string) option" where
  "parse_chars [] = None"
| "parse_chars (ch # s) =
     (if ch = CHR 0x22 then Some ([], s)
      else if ch = CHR 0x5C then
        (case s of
           [] \<Rightarrow> None
         | e # s' \<Rightarrow> (case parse_chars s' of None \<Rightarrow> None | Some (t, r) \<Rightarrow> Some (e # t, r)))
      else (case parse_chars s of None \<Rightarrow> None | Some (t, r) \<Rightarrow> Some (ch # t, r)))"

definition is_digit :: "char \<Rightarrow> bool" where
  "is_digit ch = ((48 :: nat) \<le> of_char ch \<and> of_char ch \<le> (57 :: nat))"

definition digits_value :: "string \<Rightarrow> int" where
  "digits_value s = foldl (\<lambda>acc ch. 10 * acc + (int (of_char ch) - 48)) 0 s"

definition parse_number :: "string \<Rightarrow> (json \<times> string) option" where
  "parse_number s =
     (case s of
        [] \<Rightarrow> None
      | ch # s' \<Rightarrow>
          (let neg = (ch = CHR ''-'');
               body = (if neg then s' else s);
               ds = takeWhile is_digit body
           in if ds = [] then None
              else Some (JNum ((if neg then - 1 else 1) * digits_value ds), dropWhile is_digit body)))"

fun parse_value :: "nat \<Rightarrow> string \<Rightarrow> (json \<times> string) option"
  and parse_items :: "nat \<Rightarrow> string \<Rightarrow> (json list \<times> string) option"
  and parse_members :: "nat \<Rightarrow> string \<Rightarrow> ((string \<times> json) list \<times> string) option" where
  "parse_value 0 s = None"
| "parse_value (Suc fuel) s =
     (case skip_ws s of
        [] \<Rightarrow> None
      | ch # r \<Rightarrow>
          if ch = CHR 0x22 then
            (case parse_chars r of None \<Rightarrow> None | Some (t, r') \<Rightarrow> Some (JStr t, r'))
          else if ch = CHR ''['' then
            (case skip_ws r of
               [] \<Rightarrow> None
             | ch' # r' \<Rightarrow>
                 if ch' = CHR '']'' then Some (JList [], r')
                 else (case parse_items fuel (ch' # r') of
                         None \<Rightarrow> None | Some (xs, r'') \<Rightarrow> Some (JList xs, r'')))
          else if ch = CHR ''{'' then
            (case skip_ws r of
               [] \<Rightarrow> None
             | ch' # r' \<Rightarrow>
                 if ch' = CHR ''}'' then Some (JObj [], r')
                 else (case parse_members fuel (ch' # r') of
                         None \<Rightarrow> None | Some (kvs, r'') \<Rightarrow> Some (JObj kvs, r'')))
          else if take 4 (ch # r) = ''null'' then Some (JNull, drop 4 (ch # r))
          else if take 4 (ch # r) = ''true'' then Some (JBool True, drop 4 (ch # r))
          else if take 5 (ch # r) = ''false'' then Some (JBool False, drop 5 (ch # r))
          else parse_number (ch # r))"
| "parse_items 0 s = None"
| "parse_items (Suc fuel) s =
     (case parse_value fuel s of
        None \<Rightarrow> None
      | Some (x, r) \<Rightarrow>
          (case skip_ws r of
             [] \<Rightarrow> None
           | ch # r' \<Rightarrow>
               if ch = CHR '']'' then Some ([x], r')
               else if ch = CHR '','' then
                 (case parse_items fuel r' of
                    None \<Rightarrow> None | Some (xs, r'') \<Rightarrow> Some (x # xs, r''))
               else None))"
| "parse_members 0 s = None"
| "parse_members (Suc fuel) s =
     (case skip_ws s of
        [] \<Rightarrow> None
      | ch # r \<Rightarrow>
          if ch \<noteq> CHR 0x22 then None
          else
            (case parse_chars r of
               None \<Rightarrow> None
             | Some (k, r1) \<Rightarrow>
                 (case skip_ws r1 of
                    [] \<Rightarrow> None
                  | ch1 # r2 \<Rightarrow>
                      if ch1 \<noteq> CHR '':'' then None
                      else
                        (case parse_value fuel r2 of
                           None \<Rightarrow> None
                         | Some (v, r3) \<Rightarrow>
                             (case skip_ws r3 of
                                [] \<Rightarrow> None
                              | ch3 # r4 \<Rightarrow>
                                  if ch3 = CHR ''}'' then Some ([(k, v)], r4)
                                  else if ch3 = CHR '','' then
                                    (case parse_members fuel r4 of
                                       None \<Rightarrow> None
                                     | Some (kvs, r5) \<Rightarrow> Some ((k, v) # kvs, r5))
                                  else None)))))"

definition json_parse :: "string \<Rightarrow> json option" where
  "json_parse s =
     (case parse_value (length s) s of
        None \<Rightarrow> None
      | Some (v, r) \<Rightarrow> if skip_ws r = [] then Some v else None)"

definition example_envelope :: "(string \<times> json) list \<Rightarrow> json" where
  "example_envelope extra = JObj ([(''code'', JNum 0), (''msg'', JStr ''success'')] @ extra)"

definition example_service :: "request list \<Rightarrow> request \<Rightarrow> (error + json) \<times> nat" where
  "example_service history req =
     (if url req = TENANT_TOKEN_API then
        (Inr (example_envelope [(''tenant_access_token'', JStr ''T''), (''expire'', JNum 7200)]), 1000)
      else if url req = USER_ID_API then
        (Inr (example_envelope
           [(''data'', JObj [(''user_list'',
               JList [JObj [(''mobile'', JStr ''13000000000'')],
                      JObj [(''user_id'', JStr ''ou_1''), (''email'', JStr ''a@b.c'')],
                      JObj [(''user_id'', JStr ''ou_2'')]])])]), 1000)
      else if url req = UPLOAD_IMAGE_API then
        (Inr (example_envelope [(''data'', JObj [(''image_key'', JStr ''img_1'')])]), 1000)
      else if url req = UPLOAD_FILE_API then
        (Inr (example_envelope [(''data'', JObj [(''file_key'', JStr ''file_1'')])]), 1000)
      else (Inr (example_envelope [(''data'', JObj [(''message_id'', JStr ''om_1'')])]), 1000))"

definition rejecting_service :: "request list \<Rightarrow> request \<Rightarrow> (error + json) \<times> nat" where
  "rejecting_service history req =
     (Inr (JObj [(''code'', JNum 5), (''msg'', JStr ''bad request'')]), 1000)"

definition example_ext :: ext where
  "example_ext =
     \<lparr>respond = example_service, repr = json_text, dumps = json_text,
      content_type = (\<lambda>form. ''multipart/form-data; boundary=0123456789abcdef''),
      cv2 = Some (\<lambda>name. Inr ''JPEG'')\<rparr>"

definition example_config :: config where
  "example_config =
     \<lparr>FEISHU_APP_ID = Some ''cli_a'', FEISHU_APP_SECRET = Some ''secret'',
      FEISHU_PHONE = Some ''13000000000'', FEISHU_EMAIL = None, FEISHU_OPEN_ID = None\<rparr>"

definition example_bot :: bot where
  "example_bot = \<lparr>user_id = Some (JStr ''ou_1'')\<rparr>"

definition cached_world :: world where
  "cached_world =
     \<lparr>clock = 1000000, calls = [], logs = [], token = JStr ''T'', expire_at = 7200000000\<rparr>"

definition expired_world :: world where
  "expired_world =
     \<lparr>clock = 7300000000, calls = [], logs = [], token = JStr ''T'', expire_at = 7200000000\<rparr>"

definition disabled_config :: config where
  "disabled_config =
     \<lparr>FEISHU_APP_ID = Some [], FEISHU_APP_SECRET = Some ''secret'',
      FEISHU_PHONE = Some ''13000000000'', FEISHU_EMAIL = None, FEISHU_OPEN_ID = None\<rparr>"

definition fresh_world :: world where
  "fresh_world = TenantToken_init 1000000"

definition example_video :: file_obj where
  "example_video = Reader ''/tmp/clips/a.mp4'' ''MP4''"

definition example_response :: json where
  "example_response = example_envelope [(''data'', JObj [(''message_id'', JStr ''om_1'')])]"

section \<open>The request primitive\<close>

text \<open>Every call of \<open>post\<close> makes exactly one request, whatever the answer, and touches
  nothing but the clock and the list of calls.\<close>

lemma requests_post_calls:
  "calls (snd (requests_post E req w)) = calls w @ [req]"
  by (simp add: requests_post_def split: prod.splits)

lemma requests_post_eq:
  "respond E (calls w) req = (r, dt) \<Longrightarrow>
   requests_post E req w = (r, w\<lparr>clock := clock w + int dt, calls := calls w @ [req]\<rparr>)"
  by (simp add: requests_post_def)

lemma post_snd:
  "snd (post E u tok kw w) = snd (requests_post E (post_request E u tok kw) w)"
  by (simp add: post_def split: prod.splits sum.splits)

lemma post_calls:
  "calls (snd (post E u tok kw w)) = calls w @ [post_request E u tok kw]"
  by (simp add: post_snd requests_post_calls)

lemma post_frame:
  "logs (snd (post E u tok kw w)) = logs w"
  "token (snd (post E u tok kw w)) = token w"
  "expire_at (snd (post E u tok kw w)) = expire_at w"
  by (simp_all add: post_snd requests_post_def split: prod.splits)

lemma post_ok:
  assumes "respond E (calls w) (post_request E u tok kw) = (Inr resp, dt)"
    and "subscript resp ''code'' = Inr cd" and "\<not> truthy cd"
  shows "post E u tok kw w =
    (Inr resp, w\<lparr>clock := clock w + int dt, calls := calls w @ [post_request E u tok kw]\<rparr>)"
  using assms by (simp add: post_def requests_post_def)

lemma post_returns_response:
  "post E u tok kw w = (Inr resp, w') \<Longrightarrow>
   (\<exists>dt. respond E (calls w) (post_request E u tok kw) = (Inr resp, dt))
   \<and> calls w' = calls w @ [post_request E u tok kw] \<and> is_object resp"
  by (cases resp)
     (auto simp add: post_def requests_post_def split: prod.splits sum.splits if_splits)

section \<open>The token cache\<close>

lemma token_request_eq:
  "post_request E TENANT_TOKEN_API (JStr []) (no_kwargs\<lparr>kw_json := Some (auth_body c)\<rparr>)
     = token_request c"
  by (simp add: post_request_def post_headers_def no_kwargs_def token_request_def)

lemma request_token_frame:
  "calls (snd (request_token c E w)) = calls w @ [token_request c] \<and>
   logs (snd (request_token c E w)) = logs w"
proof -
  obtain r w1 where p:
    "post E TENANT_TOKEN_API (JStr []) (no_kwargs\<lparr>kw_json := Some (auth_body c)\<rparr>) w = (r, w1)"
    by (cases "post E TENANT_TOKEN_API (JStr []) (no_kwargs\<lparr>kw_json := Some (auth_body c)\<rparr>) w")
  have "calls w1 = calls w @ [token_request c]" "logs w1 = logs w"
    using post_calls[of E TENANT_TOKEN_API "JStr []" "no_kwargs\<lparr>kw_json := Some (auth_body c)\<rparr>" w]
      post_frame(1)[of E TENANT_TOKEN_API "JStr []" "no_kwargs\<lparr>kw_json := Some (auth_body c)\<rparr>" w]
    by (simp_all add: p token_request_eq)
  then show ?thesis
    by (simp add: request_token_def p Let_def split: sum.splits)
qed

lemmas request_token_calls = request_token_frame[THEN conjunct1]
lemmas request_token_logs = request_token_frame[THEN conjunct2]

lemma request_token_ok:
  assumes "respond E (calls w) (token_request c) = (Inr resp, dt)"
    and "subscript resp ''code'' = Inr cd" and "\<not> truthy cd"
    and "subscript resp ''tenant_access_token'' = Inr t"
    and "subscript resp ''expire'' = Inr (JNum n)"
    and "- 999999999 \<le> n div 86400" and "n div 86400 \<le> 999999999"
    and "0 \<le> n * 1000000 + (clock w + int dt)"
    and "n * 1000000 + (clock w + int dt) < datetime_max"
  shows "request_token c E w =
    (Inr (), w\<lparr>clock := clock w + int dt, calls := calls w @ [token_request c],
               token := t, expire_at := clock w + int dt + n * 1000000\<rparr>)"
proof -
  have "post E TENANT_TOKEN_API (JStr []) (no_kwargs\<lparr>kw_json := Some (auth_body c)\<rparr>) w =
    (Inr resp, w\<lparr>clock := clock w + int dt, calls := calls w @ [token_request c]\<rparr>)"
    using post_ok[of E w TENANT_TOKEN_API "JStr []" _ resp dt cd] assms(1-3)
    by (simp add: token_request_eq)
  then show ?thesis
    using assms(4-9) by (simp add: request_token_def datetime_add_def add.commute)
qed

lemma TenantToken_get_cached:
  "truthy (token w) \<Longrightarrow> clock w \<le> expire_at w \<Longrightarrow> TenantToken_get c E w = (Inr (token w), w)"
  by (simp add: TenantToken_get_def)

lemma TenantToken_get_refresh_calls:
  "\<not> truthy (token w) \<or> expire_at w < clock w \<Longrightarrow>
   calls (snd (TenantToken_get c E w)) = calls w @ [token_request c]"
  using request_token_calls[of c E w]
  by (auto simp add: TenantToken_get_def split: prod.splits sum.splits)

lemma TenantToken_get_calls:
  "calls (snd (TenantToken_get c E w)) =
     calls w @ (if \<not> truthy (token w) \<or> expire_at w < clock w then [token_request c] else [])"
  using TenantToken_get_refresh_calls[of w c E]
  by (auto simp add: TenantToken_get_def)

lemma TenantToken_get_logs:
  "logs (snd (TenantToken_get c E w)) = logs w"
  using request_token_logs[of c E w]
  by (auto simp add: TenantToken_get_def split: prod.splits sum.splits)

lemma token_requests_calls:
  "calls (token_requests c E ds w) = calls w @ replicate (refreshes c E ds w) (token_request c)"
proof (induction ds arbitrary: w)
  case Nil
  then show ?case by simp
next
  case (Cons d ds)
  show ?case
    using Cons.IH[of "snd (TenantToken_get c E (w\<lparr>clock := clock w + int d\<rparr>))"]
      TenantToken_get_calls[of c E "w\<lparr>clock := clock w + int d\<rparr>"]
    by (simp add: replicate_append_same)
qed

section \<open>Which endpoints an operation calls\<close>

text \<open>Only \<open>get_open_id\<close> calls the lookup endpoint, and it calls it at most once.\<close>

lemma api_distinct:
  "TENANT_TOKEN_API \<noteq> USER_ID_API" "MESSAGE_API \<noteq> USER_ID_API"
  "UPLOAD_IMAGE_API \<noteq> USER_ID_API" "UPLOAD_FILE_API \<noteq> USER_ID_API"
  by (simp_all add: TENANT_TOKEN_API_def USER_ID_API_def MESSAGE_API_def UPLOAD_IMAGE_API_def
      UPLOAD_FILE_API_def)

lemma lookup_calls_logs [simp]: "lookup_calls (w\<lparr>logs := l\<rparr>) = lookup_calls w"
  by (simp add: lookup_calls_def)

lemma post_lookups:
  "post E u tok kw w = (r, w1) \<Longrightarrow>
   lookup_calls w1 = lookup_calls w + (if u = USER_ID_API then 1 else 0) \<and> logs w1 = logs w"
  using post_calls[of E u tok kw w] post_frame(1)[of E u tok kw w]
  by (simp add: lookup_calls_def post_request_def)

lemma TenantToken_get_lookups:
  "TenantToken_get c E w = (r, w1) \<Longrightarrow> lookup_calls w1 = lookup_calls w \<and> logs w1 = logs w"
  using TenantToken_get_calls[of c E w] TenantToken_get_logs[of c E w]
  by (simp add: lookup_calls_def token_request_def api_distinct)

lemma send_message_lookups:
  "send_message c E b mt content w = (r, w1) \<Longrightarrow> lookup_calls w1 = lookup_calls w \<and> logs w1 = logs w"
  by (auto simp add: send_message_def api_distinct
      split: prod.splits sum.splits option.splits
      dest!: TenantToken_get_lookups post_lookups)

lemma upload_target_url:
  "upload_target ft f fn = (u, form) \<Longrightarrow> u \<noteq> USER_ID_API"
  by (auto simp add: upload_target_def api_distinct split: if_splits)

lemma post_file_lookups:
  "post_file c E ft f fn w = (r, w1) \<Longrightarrow> lookup_calls w1 = lookup_calls w \<and> logs w1 = logs w"
  by (auto simp add: post_file_def
      split: prod.splits sum.splits
      dest!: TenantToken_get_lookups post_lookups upload_target_url)

lemma call_method_lookups:
  "call_method c E b opn w = (r, w1) \<Longrightarrow> lookup_calls w1 = lookup_calls w"
  by (cases opn)
     (auto simp add: send_text_def send_image_def send_file_def send_audio_def send_media_def
        send_card_def
      split: prod.splits sum.splits option.splits
      dest!: send_message_lookups post_file_lookups)

lemma invoke_lookups:
  "lookup_calls (snd (invoke c E b opn w)) = lookup_calls w"
  using call_method_lookups[of c E b opn w]
  by (cases "call_method c E b opn w")
     (auto simp add: invoke_def getattribute_def wrap_def)

lemma get_open_id_lookups:
  "get_open_id c E tok w = (r, w1) \<Longrightarrow> lookup_calls w1 \<le> lookup_calls w + 1"
  by (auto simp add: get_open_id_def
      split: if_splits prod.splits sum.splits option.splits
      dest!: post_lookups)

lemma FeiShuBot_init_lookups:
  "lookup_calls (snd (FeiShuBot_init c E w)) \<le> lookup_calls w + 1"
  by (auto simp add: FeiShuBot_init_def
      split: if_splits prod.splits sum.splits
      dest!: TenantToken_get_lookups get_open_id_lookups)

section \<open>Recipient lookup\<close>

lemma present_truthy: "env_truthy v = present v"
  by (cases v) (simp_all add: env_truthy_def present_def)

lemma first_user_id_objects:
  "\<forall>u \<in> set users. is_object u \<Longrightarrow>
   first_user_id users =
     (case find (has_key ''user_id'') users of
        None \<Rightarrow> None
      | Some u \<Rightarrow> Some (subscript u ''user_id''))"
proof (induction users)
  case Nil
  then show ?case by simp
next
  case (Cons u users)
  then obtain kvs where "u = JObj kvs"
    by (cases u) simp_all
  with Cons show ?case by simp
qed

lemma lookup_request_eq:
  "post_request E USER_ID_API tok
     (no_kwargs\<lparr>kw_params := Some [(''user_id_type'', ''open_id'')],
                 kw_json := Some (lookup_body c)\<rparr>) = lookup_request c E tok"
  by (simp add: post_request_def post_headers_def no_kwargs_def lookup_request_def)

lemma get_open_id_found:
  assumes "env_truthy (FEISHU_PHONE c) \<or> env_truthy (FEISHU_EMAIL c)"
    and "respond E (calls w) (lookup_request c E tok) = (Inr resp, dt)"
    and "subscript resp ''code'' = Inr (JNum 0)"
    and "subscript resp ''data'' = Inr d"
    and "subscript d ''user_list'' = Inr (JList users)"
    and "\<forall>u \<in> set users. is_object u"
  shows "get_open_id c E tok w =
     (case find (has_key ''user_id'') users of
        None \<Rightarrow> Inl (lookup_error c E)
      | Some u \<Rightarrow> subscript u ''user_id'',
      w\<lparr>clock := clock w + int dt, calls := calls w @ [lookup_request c E tok]\<rparr>)"
proof -
  have "post E USER_ID_API tok
     (no_kwargs\<lparr>kw_params := Some [(''user_id_type'', ''open_id'')],
                 kw_json := Some (lookup_body c)\<rparr>) w =
    (Inr resp, w\<lparr>clock := clock w + int dt, calls := calls w @ [lookup_request c E tok]\<rparr>)"
    using post_ok[of E w USER_ID_API tok _ resp dt "JNum 0"] assms(2,3)
    by (simp add: lookup_request_eq)
  then show ?thesis
    using assms(1,4,5) first_user_id_objects[OF assms(6)]
    by (simp add: get_open_id_def py_any_def split: option.splits)
qed

lemma get_open_id_unconfigured:
  "\<not> env_truthy (FEISHU_PHONE c) \<Longrightarrow> \<not> env_truthy (FEISHU_EMAIL c) \<Longrightarrow>
   get_open_id c E tok w = (Inl config_error, w)"
  by (simp add: get_open_id_def py_any_def)

section \<open>Sending\<close>

lemma message_request_eq:
  "post_request E MESSAGE_API tok
     (no_kwargs\<lparr>kw_params := Some [(''receive_id_type'', ''open_id'')],
                 kw_json := Some (message_body E uid mt content)\<rparr>) =
   message_request E tok uid mt content"
  by (simp add: post_request_def post_headers_def no_kwargs_def message_request_def
      message_body_def)

lemma send_message_post:
  "TenantToken_get c E w = (Inr tok, w1) \<Longrightarrow> user_id b = Some uid \<Longrightarrow>
   send_message c E b mt content w =
     post E MESSAGE_API tok
       (no_kwargs\<lparr>kw_params := Some [(''receive_id_type'', ''open_id'')],
                   kw_json := Some (message_body E uid mt content)\<rparr>) w1"
  by (simp add: send_message_def)

lemma send_message_calls:
  "TenantToken_get c E w = (Inr tok, w1) \<Longrightarrow> user_id b = Some uid \<Longrightarrow>
   calls (snd (send_message c E b mt content w)) =
     calls w1 @ [message_request E tok uid mt content]"
  by (simp add: send_message_post post_calls message_request_eq)

lemma send_message_returns_response:
  assumes "send_message c E b mt content w = (Inr resp, w')"
  shows "calls w' \<noteq> [] \<and> url (last (calls w')) = MESSAGE_API
    \<and> (\<exists>dt. respond E (butlast (calls w')) (last (calls w')) = (Inr resp, dt))
    \<and> is_object resp"
proof -
  obtain tok w1 uid where t: "TenantToken_get c E w = (Inr tok, w1)" and u: "user_id b = Some uid"
    using assms
    by (auto simp add: send_message_def split: prod.splits sum.splits option.splits)
  show ?thesis
    using assms
      post_returns_response[of E MESSAGE_API tok
        "no_kwargs\<lparr>kw_params := Some [(''receive_id_type'', ''open_id'')],
                    kw_json := Some (message_body E uid mt content)\<rparr>" w1 resp w']
    by (auto simp add: send_message_post[OF t u] post_request_def)
qed

lemma map_of_dict_union:
  "distinct (map fst ys) \<Longrightarrow>
   map_of (foldl (\<lambda>acc kv. AList.update (fst kv) (snd kv) acc) xs ys) = map_of xs ++ map_of ys"
proof (induction ys arbitrary: xs)
  case Nil
  then show ?case by simp
next
  case (Cons kv ys)
  obtain k v where kv: "kv = (k, v)"
    by (cases kv)
  have none: "map_of ys k = None"
    using Cons.prems by (simp add: kv map_of_eq_None_iff)
  have "map_of (foldl (\<lambda>acc kv. AList.update (fst kv) (snd kv) acc) xs (kv # ys)) =
      (map_of xs)(k \<mapsto> v) ++ map_of ys"
    using Cons.IH[of "AList.update k v xs"] Cons.prems by (simp add: kv update_conv' fun_upd_def)
  also have "\<dots> = map_of xs ++ map_of (kv # ys)"
  proof
    fix x
    show "((map_of xs)(k \<mapsto> v) ++ map_of ys) x = (map_of xs ++ map_of (kv # ys)) x"
      using none by (cases "map_of ys x") (auto simp add: kv map_add_def)
  qed
  finally show ?case .
qed

section \<open>The example environment at work\<close>

lemmas example_defs =
  example_ext_def example_service_def example_envelope_def example_config_def example_bot_def
  cached_world_def example_video_def
  TENANT_TOKEN_API_def USER_ID_API_def MESSAGE_API_def UPLOAD_IMAGE_API_def UPLOAD_FILE_API_def

lemma cached_world_fields:
  "token cached_world = JStr ''T''" "clock cached_world = 1000000"
  "expire_at cached_world = 7200000000" "calls cached_world = []" "logs cached_world = []"
  by (simp_all add: cached_world_def)

lemma example_token:
  "TenantToken_get example_config example_ext cached_world = (Inr (JStr ''T''), cached_world)"
  by (simp add: TenantToken_get_def cached_world_def)

lemma example_get:
  "token w = JStr ''T'' \<Longrightarrow> clock w \<le> expire_at w \<Longrightarrow>
   TenantToken_get example_config example_ext w = (Inr (JStr ''T''), w)"
  by (simp add: TenantToken_get_def)

lemma example_post_file:
  assumes "token w = JStr ''T''" and "clock w + 1000 \<le> expire_at w"
  shows "\<exists>w'. post_file example_config example_ext ft f fn w =
      (Inr (JObj [if ft = ''image'' then (''image_key'', JStr ''img_1'')
                  else (''file_key'', JStr ''file_1'')]), w')
    \<and> token w' = JStr ''T'' \<and> clock w' = clock w + 1000 \<and> expire_at w' = expire_at w"
proof -
  have "TenantToken_get example_config example_ext w = (Inr (JStr ''T''), w)"
    using assms by (simp add: example_get)
  then show ?thesis
    using assms
    by (simp add: post_file_def upload_target_def post_def requests_post_def post_request_def
        example_ext_def example_service_def example_envelope_def TENANT_TOKEN_API_def
        USER_ID_API_def UPLOAD_IMAGE_API_def UPLOAD_FILE_API_def)
qed

lemma example_send_message:
  assumes "token w = JStr ''T''" and "clock w \<le> expire_at w"
  shows "\<exists>w'. send_message example_config example_ext example_bot mt content w =
      (Inr example_response, w')"
proof -
  have "TenantToken_get example_config example_ext w = (Inr (JStr ''T''), w)"
    using assms by (simp add: example_get)
  then show ?thesis
    by (simp add: send_message_def example_bot_def post_def requests_post_def post_request_def
        example_ext_def example_service_def example_envelope_def example_response_def
        TENANT_TOKEN_API_def USER_ID_API_def UPLOAD_IMAGE_API_def UPLOAD_FILE_API_def
        MESSAGE_API_def)
qed

section \<open>The claims\<close>

text \<open>
  Claim C1. When the enabled flag is false, constructing the client returns at once: no
  recipient is resolved, no attribute is set and the state is untouched. Every attribute
  name other than \<^verbatim>\<open>token\<close> then yields \<^verbatim>\<open>wrap\<close> closed over that name, and calling
  it appends the warning that names the attempted operation and returns \<^verbatim>\<open>None\<close>. So
  invoking any of the public operations logs that warning, makes no request, does not
  raise, and returns the falsy \<^verbatim>\<open>None\<close>.
\<close>

theorem disabled_gate:
  assumes "\<not> ENABLE c"
  shows "FeiShuBot_init c E w = (Inr \<lparr>user_id = None\<rparr>, w)
    \<and> (name \<noteq> ''token'' \<longrightarrow> getattribute c name = Wrap name)
    \<and> wrap name w =
        (Inr JNull, w\<lparr>logs := logs w @ [''FeiShuBot is disabled, '' @ name @ '' is unavailable.'']\<rparr>)
    \<and> invoke c E b opn w =
        (Inr JNull,
         w\<lparr>logs := logs w @ [''FeiShuBot is disabled, '' @ operation_name opn @ '' is unavailable.'']\<rparr>)
    \<and> calls (snd (invoke c E b opn w)) = calls w
    \<and> \<not> truthy JNull"
proof -
  have "operation_name opn \<noteq> ''token''"
    by (cases opn) simp_all
  then show ?thesis
    using assms by (simp add: FeiShuBot_init_def getattribute_def invoke_def wrap_def)
qed

theorem disabled_gate_witness:
  "\<not> ENABLE disabled_config
   \<and> FeiShuBot_init disabled_config example_ext fresh_world = (Inr \<lparr>user_id = None\<rparr>, fresh_world)
   \<and> getattribute disabled_config ''send_text'' = Wrap ''send_text''
   \<and> invoke disabled_config example_ext \<lparr>user_id = None\<rparr> (SendText ''hello'') fresh_world =
       (Inr JNull, fresh_world\<lparr>logs := [''FeiShuBot is disabled, send_text is unavailable.'']\<rparr>)"
proof -
  have h: "\<not> ENABLE disabled_config"
    by (simp add: ENABLE_def disabled_config_def py_all_def env_truthy_def)
  show ?thesis
    using h disabled_gate[OF h, of example_ext fresh_world "''send_text''" "\<lparr>user_id = None\<rparr>"
        "SendText ''hello''"]
    by (simp add: fresh_world_def TenantToken_init_def)
qed

text \<open>
  Claim C2, as the code has it. \<^verbatim>\<open>__get__\<close> refreshes when no token is cached or when
  the cached token's expiry lies strictly before the current time
  (\<^verbatim>\<open>self.expire_at < datetime.now()\<close>), not when it lies at or after it. At every
  state, hence at every point of every sequence of token requests:
  \<^item> a request that finds a cached token whose expiry is at or after the current time
    makes no request, changes nothing and returns the cached token;
  \<^item> a request that finds no token, or an expiry before the current time, makes exactly
    one request, the authentication call; when that call is answered with code 0, a token
    and a time to live in seconds that keeps the expiry within the range of
    \<^verbatim>\<open>datetime\<close>, the returned token is stored and returned, and the expiry is the
    time read after the call plus the time to live.

  Over a sequence of requests with any delays between them, the requests made are
  authentication calls, one for each request that found the cache empty or expired.
\<close>

theorem token_refresh:
  "(truthy (token w) \<and> clock w \<le> expire_at w \<longrightarrow>
      TenantToken_get c E w = (Inr (token w), w))
   \<and> (\<not> truthy (token w) \<or> expire_at w < clock w \<longrightarrow>
      calls (snd (TenantToken_get c E w)) = calls w @ [token_request c]
      \<and> (respond E (calls w) (token_request c) = (Inr resp, dt)
           \<and> subscript resp ''code'' = Inr (JNum 0)
           \<and> subscript resp ''tenant_access_token'' = Inr t
           \<and> subscript resp ''expire'' = Inr (JNum ttl)
           \<and> - 999999999 \<le> ttl div 86400 \<and> ttl div 86400 \<le> 999999999
           \<and> 0 \<le> clock w + int dt + ttl * 1000000
           \<and> clock w + int dt + ttl * 1000000 < datetime_max \<longrightarrow>
          TenantToken_get c E w =
            (Inr t, w\<lparr>clock := clock w + int dt, calls := calls w @ [token_request c],
                       token := t, expire_at := clock w + int dt + ttl * 1000000\<rparr>)))
   \<and> calls (token_requests c E ds w) =
       calls w @ replicate (refreshes c E ds w) (token_request c)"
proof (intro conjI impI)
  assume "truthy (token w) \<and> clock w \<le> expire_at w"
  then show "TenantToken_get c E w = (Inr (token w), w)"
    by (simp add: TenantToken_get_cached)
next
  assume "\<not> truthy (token w) \<or> expire_at w < clock w"
  then show "calls (snd (TenantToken_get c E w)) = calls w @ [token_request c]"
    by (rule TenantToken_get_refresh_calls)
next
  assume stale: "\<not> truthy (token w) \<or> expire_at w < clock w"
  assume ok: "respond E (calls w) (token_request c) = (Inr resp, dt)
           \<and> subscript resp ''code'' = Inr (JNum 0)
           \<and> subscript resp ''tenant_access_token'' = Inr t
           \<and> subscript resp ''expire'' = Inr (JNum ttl)
           \<and> - 999999999 \<le> ttl div 86400 \<and> ttl div 86400 \<le> 999999999
           \<and> 0 \<le> clock w + int dt + ttl * 1000000
           \<and> clock w + int dt + ttl * 1000000 < datetime_max"
  have "request_token c E w =
      (Inr (), w\<lparr>clock := clock w + int dt, calls := calls w @ [token_request c],
                 token := t, expire_at := clock w + int dt + ttl * 1000000\<rparr>)"
    using ok request_token_ok[of E w c resp dt "JNum 0" t ttl]
    by (simp add: add.commute add.left_commute)
  then show "TenantToken_get c E w =
      (Inr t, w\<lparr>clock := clock w + int dt, calls := calls w @ [token_request c],
                 token := t, expire_at := clock w + int dt + ttl * 1000000\<rparr>)"
    using stale by (auto simp add: TenantToken_get_def)
next
  show "calls (token_requests c E ds w) =
      calls w @ replicate (refreshes c E ds w) (token_request c)"
    by (rule token_requests_calls)
qed

theorem token_refresh_witness:
  "TenantToken_get example_config example_ext fresh_world =
     (Inr (JStr ''T''),
      \<lparr>clock = 1001000, calls = [token_request example_config], logs = [],
       token = JStr ''T'', expire_at = 7201001000\<rparr>)
   \<and> TenantToken_get example_config example_ext
       \<lparr>clock = 1001000, calls = [token_request example_config], logs = [],
        token = JStr ''T'', expire_at = 7201001000\<rparr> =
     (Inr (JStr ''T''),
      \<lparr>clock = 1001000, calls = [token_request example_config], logs = [],
       token = JStr ''T'', expire_at = 7201001000\<rparr>)
   \<and> calls (token_requests example_config example_ext [0, 5000000, 7300000000] fresh_world) =
       [token_request example_config, token_request example_config]"
  using token_refresh[of fresh_world example_config example_ext
      "example_envelope [(''tenant_access_token'', JStr ''T''), (''expire'', JNum 7200)]" 1000
      "JStr ''T''" 7200 "[0, 5000000, 7300000000]"]
    token_refresh[of "\<lparr>clock = 1001000, calls = [token_request example_config], logs = [],
        token = JStr ''T'', expire_at = 7201001000\<rparr>" example_config example_ext]
  by (simp add: fresh_world_def TenantToken_init_def example_ext_def example_service_def
      token_request_def example_envelope_def datetime_max_def TenantToken_get_def
      request_token_def post_def requests_post_def post_request_def post_headers_def
      no_kwargs_def datetime_add_def)

text \<open>
  The claim as stated fails in both directions: a cached token whose expiry is after the
  current time is returned without any request, and a cached token whose expiry is before
  the current time causes an authentication call.
\<close>

theorem token_refresh_counterexample:
  "truthy (token cached_world) \<and> clock cached_world \<le> expire_at cached_world
   \<and> calls (snd (TenantToken_get example_config example_ext cached_world)) = calls cached_world
   \<and> truthy (token expired_world) \<and> expire_at expired_world < clock expired_world
   \<and> calls (snd (TenantToken_get example_config example_ext expired_world)) =
       calls expired_world @ [token_request example_config]"
proof -
  have valid: "truthy (token cached_world)" "clock cached_world \<le> expire_at cached_world"
    by (simp_all add: cached_world_def)
  have stale: "truthy (token expired_world)" "expire_at expired_world < clock expired_world"
    by (simp_all add: expired_world_def)
  show ?thesis
    using valid stale TenantToken_get_cached[OF valid, of example_config example_ext]
      TenantToken_get_refresh_calls[of expired_world example_config example_ext]
    by simp
qed

text \<open>
  Claim C3. Constructing a client makes at most one lookup call, and none (the state is
  untouched) when the client is disabled or \<^verbatim>\<open>FEISHU_OPEN_ID\<close> is present; no send
  operation makes a lookup call. An enabled client without \<^verbatim>\<open>FEISHU_OPEN_ID\<close> has a
  phone or an email, so the constructor resolves only then. \<^verbatim>\<open>get_open_id\<close> with
  neither phone nor email present raises the configuration error with the state
  untouched, so before any request.
  Otherwise, when the lookup is answered with code 0 and a list of user records, it returns
  the \<^verbatim>\<open>user_id\<close> of the first record that has that field, and raises the lookup
  error when no record has it.
\<close>

theorem recipient_resolution:
  "lookup_calls (snd (FeiShuBot_init c E w)) \<le> lookup_calls w + 1
   \<and> (\<not> ENABLE c \<or> present (FEISHU_OPEN_ID c) \<longrightarrow> snd (FeiShuBot_init c E w) = w)
   \<and> lookup_calls (snd (invoke c E b opn w)) = lookup_calls w
   \<and> (ENABLE c \<and> \<not> present (FEISHU_OPEN_ID c) \<longrightarrow>
        present (FEISHU_PHONE c) \<or> present (FEISHU_EMAIL c))
   \<and> (\<not> present (FEISHU_PHONE c) \<and> \<not> present (FEISHU_EMAIL c) \<longrightarrow>
        get_open_id c E tok w = (Inl config_error, w))
   \<and> ((present (FEISHU_PHONE c) \<or> present (FEISHU_EMAIL c))
        \<and> respond E (calls w) (lookup_request c E tok) = (Inr resp, dt)
        \<and> subscript resp ''code'' = Inr (JNum 0)
        \<and> subscript resp ''data'' = Inr d
        \<and> subscript d ''user_list'' = Inr (JList users)
        \<and> (\<forall>u \<in> set users. is_object u) \<longrightarrow>
        get_open_id c E tok w =
          (case find (has_key ''user_id'') users of
             None \<Rightarrow> Inl (lookup_error c E)
           | Some u \<Rightarrow> subscript u ''user_id'',
           w\<lparr>clock := clock w + int dt, calls := calls w @ [lookup_request c E tok]\<rparr>))"
proof (intro conjI impI)
  show "lookup_calls (snd (FeiShuBot_init c E w)) \<le> lookup_calls w + 1"
    by (rule FeiShuBot_init_lookups)
next
  assume "\<not> ENABLE c \<or> present (FEISHU_OPEN_ID c)"
  then show "snd (FeiShuBot_init c E w) = w"
    by (auto simp add: FeiShuBot_init_def present_truthy)
next
  show "lookup_calls (snd (invoke c E b opn w)) = lookup_calls w"
    by (rule invoke_lookups)
next
  assume "ENABLE c \<and> \<not> present (FEISHU_OPEN_ID c)"
  then show "present (FEISHU_PHONE c) \<or> present (FEISHU_EMAIL c)"
    by (auto simp add: ENABLE_def py_all_def py_any_def present_truthy split: if_splits)
next
  assume "\<not> present (FEISHU_PHONE c) \<and> \<not> present (FEISHU_EMAIL c)"
  then show "get_open_id c E tok w = (Inl config_error, w)"
    by (simp add: get_open_id_unconfigured present_truthy)
next
  assume "(present (FEISHU_PHONE c) \<or> present (FEISHU_EMAIL c))
        \<and> respond E (calls w) (lookup_request c E tok) = (Inr resp, dt)
        \<and> subscript resp ''code'' = Inr (JNum 0)
        \<and> subscript resp ''data'' = Inr d
        \<and> subscript d ''user_list'' = Inr (JList users)
        \<and> (\<forall>u \<in> set users. is_object u)"
  then show "get_open_id c E tok w =
          (case find (has_key ''user_id'') users of
             None \<Rightarrow> Inl (lookup_error c E)
           | Some u \<Rightarrow> subscript u ''user_id'',
           w\<lparr>clock := clock w + int dt, calls := calls w @ [lookup_request c E tok]\<rparr>)"
    using get_open_id_found[of c E w tok resp dt d users]
    by (simp add: present_truthy)
qed

theorem recipient_resolution_witness:
  "get_open_id example_config example_ext (JStr ''T'') cached_world =
     (Inr (JStr ''ou_1''),
      cached_world\<lparr>clock := 1001000,
        calls := [lookup_request example_config example_ext (JStr ''T'')]\<rparr>)
   \<and> get_open_id (example_config\<lparr>FEISHU_PHONE := None\<rparr>) example_ext (JStr ''T'') cached_world =
     (Inl config_error, cached_world)
   \<and> snd (FeiShuBot_init disabled_config example_ext cached_world) = cached_world
   \<and> ENABLE example_config \<and> present (FEISHU_PHONE example_config)
   \<and> lookup_calls (snd (invoke example_config example_ext example_bot (SendText ''hello'')
        cached_world)) = 0"
  using recipient_resolution[of example_config example_ext cached_world example_bot
      "SendText ''hello''" "JStr ''T''"
      "example_envelope
           [(''data'', JObj [(''user_list'',
               JList [JObj [(''mobile'', JStr ''13000000000'')],
                      JObj [(''user_id'', JStr ''ou_1''), (''email'', JStr ''a@b.c'')],
                      JObj [(''user_id'', JStr ''ou_2'')]])])]" 1000
      "JObj [(''user_list'',
               JList [JObj [(''mobile'', JStr ''13000000000'')],
                      JObj [(''user_id'', JStr ''ou_1''), (''email'', JStr ''a@b.c'')],
                      JObj [(''user_id'', JStr ''ou_2'')]])]"
      "[JObj [(''mobile'', JStr ''13000000000'')],
                      JObj [(''user_id'', JStr ''ou_1''), (''email'', JStr ''a@b.c'')],
                      JObj [(''user_id'', JStr ''ou_2'')]]"]
    recipient_resolution[of "example_config\<lparr>FEISHU_PHONE := None\<rparr>" example_ext cached_world
      example_bot "SendText ''hello''" "JStr ''T''"]
    recipient_resolution[of disabled_config example_ext cached_world example_bot
      "SendText ''hello''" "JStr ''T''"]
  by (simp add: example_defs lookup_request_def present_def disabled_config_def ENABLE_def
      py_all_def py_any_def env_truthy_def lookup_calls_def)

text \<open>
  Claim C4. A call of \<^verbatim>\<open>_post\<close> that is answered with an envelope whose code is the
  integer \<open>n\<close> makes exactly that one request; it raises \<^verbatim>\<open>ValueError\<close> with the
  message \<^verbatim>\<open>Message failed: \<close> followed by the server's message when \<open>n\<close> is not
  zero, and returns the envelope when it is zero. The request goes to the given URL, and
  its \<^verbatim>\<open>authorization\<close> header is \<^verbatim>\<open>Bearer \<close> followed by the token exactly when
  the token is truthy; otherwise it is whatever the caller's headers had, which is nothing
  when no headers were passed.
\<close>

theorem post_envelope:
  assumes "respond E (calls w) (post_request E u tok kw) = (Inr resp, dt)"
    and "subscript resp ''code'' = Inr (JNum n)"
    and "n \<noteq> 0 \<Longrightarrow> subscript resp ''msg'' = Inr (JStr m)"
  shows "post E u tok kw w =
      (if n \<noteq> 0 then Inl (ValueError (''Message failed: '' @ m)) else Inr resp,
       w\<lparr>clock := clock w + int dt, calls := calls w @ [post_request E u tok kw]\<rparr>)
    \<and> url (post_request E u tok kw) = u
    \<and> map_of (headers (post_request E u tok kw)) ''authorization'' =
        (if truthy tok then Some (''Bearer '' @ py_str E tok)
         else (case kw_headers kw of None \<Rightarrow> None | Some h \<Rightarrow> map_of h ''authorization''))"
  using assms
  by (auto simp add: post_def requests_post_def post_request_def post_headers_def
      update_Some_unfold split: option.splits)

theorem post_envelope_witness:
  "post (example_ext\<lparr>respond := rejecting_service\<rparr>) MESSAGE_API (JStr ''T'') no_kwargs cached_world =
     (Inl (ValueError ''Message failed: bad request''),
      cached_world\<lparr>clock := 1001000,
        calls := [\<lparr>url = MESSAGE_API,
                   headers = [(''Content-Type'', ''application/json''), (''authorization'', ''Bearer T'')],
                   params = None, json_body = None, data = None\<rparr>]\<rparr>)
   \<and> post example_ext MESSAGE_API (JStr []) no_kwargs cached_world =
     (Inr example_response,
      cached_world\<lparr>clock := 1001000,
        calls := [\<lparr>url = MESSAGE_API, headers = [(''Content-Type'', ''application/json'')],
                   params = None, json_body = None, data = None\<rparr>]\<rparr>)"
  using post_envelope[of "example_ext\<lparr>respond := rejecting_service\<rparr>" cached_world MESSAGE_API
      "JStr ''T''" no_kwargs "JObj [(''code'', JNum 5), (''msg'', JStr ''bad request'')]" 1000 5
      "''bad request''"]
    post_envelope[of example_ext cached_world MESSAGE_API "JStr []" no_kwargs example_response
      1000 0]
  by (simp add: example_defs example_response_def rejecting_service_def post_request_def
      post_headers_def no_kwargs_def)

text \<open>
  Claim C5. The enabled flag is true exactly when \<^verbatim>\<open>FEISHU_APP_ID\<close> and
  \<^verbatim>\<open>FEISHU_APP_SECRET\<close> are both present and at least one of \<^verbatim>\<open>FEISHU_OPEN_ID\<close>,
  \<^verbatim>\<open>FEISHU_PHONE\<close>, \<^verbatim>\<open>FEISHU_EMAIL\<close> is present. Removing the application
  identifier, the secret, or all three recipient fields (unsetting the variable or setting
  it to the empty string) makes it false.
\<close>

theorem ENABLE_iff_present:
  "(ENABLE c \<longleftrightarrow>
      present (FEISHU_APP_ID c) \<and> present (FEISHU_APP_SECRET c) \<and>
      (present (FEISHU_OPEN_ID c) \<or> present (FEISHU_PHONE c) \<or> present (FEISHU_EMAIL c)))
   \<and> \<not> ENABLE (c\<lparr>FEISHU_APP_ID := None\<rparr>) \<and> \<not> ENABLE (c\<lparr>FEISHU_APP_ID := Some []\<rparr>)
   \<and> \<not> ENABLE (c\<lparr>FEISHU_APP_SECRET := None\<rparr>) \<and> \<not> ENABLE (c\<lparr>FEISHU_APP_SECRET := Some []\<rparr>)
   \<and> \<not> ENABLE (c\<lparr>FEISHU_OPEN_ID := None, FEISHU_PHONE := None, FEISHU_EMAIL := None\<rparr>)"
  by (simp add: ENABLE_def py_all_def py_any_def present_truthy)
     (simp add: present_def)

text \<open>
  Claim C6, as the code has it. \<^verbatim>\<open>send_media\<close> tests for the image-processing
  capability first, before it looks at the cover: when the capability is unavailable the
  operation logs the warning and returns the empty dict whether or not a cover is supplied,
  and makes no request. When the capability is available and a truthy cover is supplied,
  the operation uploads the video as kind \<^verbatim>\<open>mp4\<close>, then the given cover as kind
  \<^verbatim>\<open>image\<close>, and sends as the content of a \<^verbatim>\<open>media\<close> message one object that holds
  the fields of both handles; the frame extractor is not consulted.
\<close>

theorem send_media_capability:
  "(cv2 E = None \<longrightarrow>
      send_media c E b media cover w = (Inr (JObj []), w\<lparr>logs := logs w @ [cv2_warning]\<rparr>))
   \<and> (cv2 E = Some first_frame \<and> file_truthy cover
        \<and> post_file c E ''mp4'' media [] w = (Inr (JObj xs), w1)
        \<and> post_file c E ''image'' cover [] w1 = (Inr (JObj ys), w2)
        \<and> distinct (map fst ys) \<longrightarrow>
        (\<exists>zs. send_media c E b media cover w = send_message c E b ''media'' (JObj zs) w2
           \<and> map_of zs = map_of xs ++ map_of ys))"
  by (auto simp add: send_media_def media_cover_def map_of_dict_union)

theorem send_media_capability_witness:
  "send_media example_config (example_ext\<lparr>cv2 := None\<rparr>) example_bot example_video (Bytes [])
      cached_world = (Inr (JObj []), cached_world\<lparr>logs := [cv2_warning]\<rparr>)
   \<and> (\<exists>w1 w2 zs.
        post_file example_config example_ext ''mp4'' example_video [] cached_world =
          (Inr (JObj [(''file_key'', JStr ''file_1'')]), w1)
        \<and> post_file example_config example_ext ''image'' (Bytes ''JPEG'') [] w1 =
          (Inr (JObj [(''image_key'', JStr ''img_1'')]), w2)
        \<and> send_media example_config example_ext example_bot example_video (Bytes ''JPEG'')
            cached_world =
          send_message example_config example_ext example_bot ''media'' (JObj zs) w2
        \<and> map_of zs = [''file_key'' \<mapsto> JStr ''file_1'', ''image_key'' \<mapsto> JStr ''img_1''])"
proof -
  obtain w1 where w1:
    "post_file example_config example_ext ''mp4'' example_video [] cached_world =
       (Inr (JObj [(''file_key'', JStr ''file_1'')]), w1)"
    "token w1 = JStr ''T''" "clock w1 = 1001000" "expire_at w1 = 7200000000"
    using example_post_file[of cached_world "''mp4''" example_video "[]"]
    by (auto simp add: cached_world_fields)
  obtain w2 where w2:
    "post_file example_config example_ext ''image'' (Bytes ''JPEG'') [] w1 =
       (Inr (JObj [(''image_key'', JStr ''img_1'')]), w2)"
    using example_post_file[of w1 "''image''" "Bytes ''JPEG''" "[]"] w1
    by auto
  have none: "cv2 (example_ext\<lparr>cv2 := None\<rparr>) = None"
    by simp
  have some: "cv2 example_ext = Some (\<lambda>name. Inr ''JPEG'')"
    by (simp add: example_ext_def)
  show ?thesis
    using w1(1) w2 none some
      send_media_capability[of "example_ext\<lparr>cv2 := None\<rparr>" example_config example_bot
        example_video "Bytes []" cached_world]
      send_media_capability[of example_ext example_config example_bot example_video
        "Bytes ''JPEG''" cached_world "\<lambda>name. Inr ''JPEG''"
        "[(''file_key'', JStr ''file_1'')]" w1 "[(''image_key'', JStr ''img_1'')]" w2]
    by (auto simp add: cached_world_fields map_add_def fun_eq_iff)
qed

text \<open>
  The claim as stated fails: with a cover supplied and the capability unavailable, the
  operation uploads nothing and returns the empty dict.
\<close>

theorem send_media_cover_counterexample:
  "cv2 (example_ext\<lparr>cv2 := None\<rparr>) = None \<and> file_truthy (Bytes ''JPEG'')
   \<and> send_media example_config (example_ext\<lparr>cv2 := None\<rparr>) example_bot example_video
        (Bytes ''JPEG'') cached_world =
      (Inr (JObj []), cached_world\<lparr>logs := [cv2_warning]\<rparr>)
   \<and> calls (cached_world\<lparr>logs := [cv2_warning]\<rparr>) = []"
  by (simp add: send_media_def cached_world_def)

text \<open>
  Claim C7. Once the token is read and the recipient is set, \<^verbatim>\<open>send_card\<close> makes one
  request to the message endpoint, of type \<^verbatim>\<open>interactive\<close>, whose content is the
  serialisation of the object with the wide-screen configuration, the one markdown element
  that holds the message and, exactly when the header is not empty, the header block with
  the plain-text title and the template \<^verbatim>\<open>blue\<close>.
\<close>

theorem send_card_request:
  assumes "TenantToken_get c E w = (Inr tok, w1)"
    and "user_id b = Some uid"
  shows "\<exists>req. calls (snd (send_card c E b message header w)) = calls w1 @ [req]
    \<and> url req = MESSAGE_API
    \<and> body_field req ''msg_type'' = Some (JStr ''interactive'')
    \<and> body_field req ''content'' = Some (JStr (dumps E
        (JObj ([(''config'', JObj [(''wide_screen_mode'', JBool True)]),
                (''elements'', JList [JObj [(''tag'', JStr ''markdown''),
                                            (''content'', JStr message)]])] @
               (if header \<noteq> [] then
                  [(''header'',
                    JObj [(''title'', JObj [(''tag'', JStr ''plain_text''),
                                            (''content'', JStr header)]),
                          (''template'', JStr ''blue'')])]
                else [])))))"
proof -
  have "calls (snd (send_card c E b message header w)) =
      calls (snd (send_message c E b ''interactive'' (card_content message header) w))"
    by (simp add: send_card_def split: prod.splits sum.splits)
  then show ?thesis
    using assms
    by (simp add: send_message_calls message_request_def body_field_def card_content_def)
qed

theorem send_card_request_witness:
  "TenantToken_get example_config example_ext cached_world = (Inr (JStr ''T''), cached_world)
   \<and> (\<exists>req. calls (snd (send_card example_config example_ext example_bot ''**b**'' ''H''
          cached_world)) = calls cached_world @ [req]
        \<and> url req = MESSAGE_API
        \<and> body_field req ''msg_type'' = Some (JStr ''interactive'')
        \<and> body_field req ''content'' = Some (JStr (dumps example_ext
            (JObj [(''config'', JObj [(''wide_screen_mode'', JBool True)]),
                   (''elements'', JList [JObj [(''tag'', JStr ''markdown''),
                                               (''content'', JStr ''**b**'')]]),
                   (''header'',
                    JObj [(''title'', JObj [(''tag'', JStr ''plain_text''),
                                            (''content'', JStr ''H'')]),
                          (''template'', JStr ''blue'')])]))))
   \<and> (\<exists>req. calls (snd (send_card example_config example_ext example_bot ''**b**'' []
          cached_world)) = calls cached_world @ [req]
        \<and> body_field req ''content'' = Some (JStr (dumps example_ext
            (JObj [(''config'', JObj [(''wide_screen_mode'', JBool True)]),
                   (''elements'', JList [JObj [(''tag'', JStr ''markdown''),
                                               (''content'', JStr ''**b**'')]])]))))"
proof -
  have u: "user_id example_bot = Some (JStr ''ou_1'')"
    by (simp add: example_bot_def)
  show ?thesis
    using example_token send_card_request[OF example_token u, of "''**b**''" "''H''"]
      send_card_request[OF example_token u, of "''**b**''" "[]"]
    by auto
qed

text \<open>
  Claim C8. Once the token is read, \<^verbatim>\<open>_post_file\<close> makes one request. The file name
  is the one supplied when it is not empty, else the base name of the stream's name when
  the input is an opened binary stream, else the literal \<^verbatim>\<open>file\<close>. Kind \<^verbatim>\<open>image\<close>
  goes to the image-upload endpoint with the fields \<^verbatim>\<open>image_type\<close> (\<^verbatim>\<open>message\<close>) and
  \<^verbatim>\<open>image\<close>; every other kind goes to the file-upload endpoint with the fields
  \<^verbatim>\<open>file_type\<close>, \<^verbatim>\<open>file\<close> and \<^verbatim>\<open>filename\<close>.
\<close>

theorem post_file_request:
  assumes "TenantToken_get c E w = (Inr tok, w1)"
  shows "\<exists>name form. calls (snd (post_file c E file_type f filename w)) =
        calls w1 @
        [\<lparr>url = (if file_type = ''image'' then UPLOAD_IMAGE_API else UPLOAD_FILE_API),
          headers = [(''Content-Type'', content_type E form)] @
                    (if truthy tok then [(''authorization'', ''Bearer '' @ py_str E tok)] else []),
          params = None, json_body = None, data = Some form\<rparr>]
    \<and> name = (if filename \<noteq> [] then filename
              else (case f of Reader path content \<Rightarrow> basename path | _ \<Rightarrow> ''file''))
    \<and> form = (if file_type = ''image''
              then [(''image_type'', Text ''message''), (''image'', FileTuple name f)]
              else [(''file_type'', Text file_type), (''file'', FileTuple name f),
                    (''filename'', Text name)])"
proof -
  obtain u form where ut: "upload_target file_type f (upload_filename f filename) = (u, form)"
    by (cases "upload_target file_type f (upload_filename f filename)")
  obtain r w2 where p: "post E u tok
        (no_kwargs\<lparr>kw_data := Some form,
                    kw_headers := Some [(''Content-Type'', content_type E form)]\<rparr>) w1 = (r, w2)"
    by (cases "post E u tok
        (no_kwargs\<lparr>kw_data := Some form,
                    kw_headers := Some [(''Content-Type'', content_type E form)]\<rparr>) w1")
  have "calls (snd (post_file c E file_type f filename w)) =
      calls w1 @ [post_request E u tok
        (no_kwargs\<lparr>kw_data := Some form,
                    kw_headers := Some [(''Content-Type'', content_type E form)]\<rparr>)]"
    using post_calls[of E u tok "no_kwargs\<lparr>kw_data := Some form,
                    kw_headers := Some [(''Content-Type'', content_type E form)]\<rparr>" w1]
    by (simp add: post_file_def ut assms p split: sum.splits)
  then show ?thesis
    using ut
    by (auto simp add: upload_target_def upload_filename_def post_request_def post_headers_def
        no_kwargs_def split: if_splits)
qed

theorem post_file_request_witness:
  "TenantToken_get example_config example_ext cached_world = (Inr (JStr ''T''), cached_world)
   \<and> calls (snd (post_file example_config example_ext ''mp4'' example_video [] cached_world)) =
       [\<lparr>url = UPLOAD_FILE_API,
         headers = [(''Content-Type'', ''multipart/form-data; boundary=0123456789abcdef''),
                    (''authorization'', ''Bearer T'')],
         params = None, json_body = None,
         data = Some [(''file_type'', Text ''mp4''), (''file'', FileTuple ''a.mp4'' example_video),
                      (''filename'', Text ''a.mp4'')]\<rparr>]
   \<and> calls (snd (post_file example_config example_ext ''image'' (Bytes ''JPEG'') []
        cached_world)) =
       [\<lparr>url = UPLOAD_IMAGE_API,
         headers = [(''Content-Type'', ''multipart/form-data; boundary=0123456789abcdef''),
                    (''authorization'', ''Bearer T'')],
         params = None, json_body = None,
         data = Some [(''image_type'', Text ''message''),
                      (''image'', FileTuple ''file'' (Bytes ''JPEG''))]\<rparr>]"
  using example_token
    post_file_request[OF example_token, of "''mp4''" example_video "[]"]
    post_file_request[OF example_token, of "''image''" "Bytes ''JPEG''" "[]"]
  by (simp add: basename_def example_ext_def cached_world_def example_video_def)

text \<open>
  Claim C9. Once the token is read and the recipient is set, \<^verbatim>\<open>send_text\<close> makes one
  request to the message endpoint, whose \<^verbatim>\<open>msg_type\<close> is \<^verbatim>\<open>text\<close> and whose
  \<^verbatim>\<open>content\<close> is the string \<^verbatim>\<open>json.dumps({"text": msg})\<close>; any parser \<open>loads\<close> that
  reads that serialisation back gives \<^verbatim>\<open>{"text": msg}\<close> for the content field.
\<close>

theorem send_text_request:
  assumes "TenantToken_get c E w = (Inr tok, w1)"
    and "user_id b = Some uid"
    and "loads (dumps E (JObj [(''text'', JStr msg)])) = Some (JObj [(''text'', JStr msg)])"
  shows "\<exists>req s. calls (snd (send_text c E b msg w)) = calls w1 @ [req]
    \<and> url req = MESSAGE_API
    \<and> body_field req ''msg_type'' = Some (JStr ''text'')
    \<and> body_field req ''content'' = Some (JStr s)
    \<and> s = dumps E (JObj [(''text'', JStr msg)])
    \<and> loads s = Some (JObj [(''text'', JStr msg)])"
  using assms
  by (simp add: send_text_def send_message_calls message_request_def body_field_def)

theorem send_text_request_witness:
  "TenantToken_get example_config example_ext cached_world = (Inr (JStr ''T''), cached_world)
   \<and> json_parse (dumps example_ext (JObj [(''text'', JStr ''hello'')])) =
        Some (JObj [(''text'', JStr ''hello'')])
   \<and> (\<exists>req s. calls (snd (send_text example_config example_ext example_bot ''hello'' cached_world)) =
          calls cached_world @ [req]
        \<and> url req = MESSAGE_API
        \<and> body_field req ''msg_type'' = Some (JStr ''text'')
        \<and> body_field req ''content'' = Some (JStr s)
        \<and> s = dumps example_ext (JObj [(''text'', JStr ''hello'')])
        \<and> json_parse s = Some (JObj [(''text'', JStr ''hello'')]))"
proof -
  have t: "TenantToken_get example_config example_ext cached_world = (Inr (JStr ''T''), cached_world)"
    by (simp add: TenantToken_get_def cached_world_def)
  have u: "user_id example_bot = Some (JStr ''ou_1'')"
    by (simp add: example_bot_def)
  have p: "json_parse (dumps example_ext (JObj [(''text'', JStr ''hello'')])) =
        Some (JObj [(''text'', JStr ''hello'')])"
    by (simp add: example_ext_def json_parse_def quoted_def)
  show ?thesis
    using t p send_text_request[where loads = json_parse, OF t u p] by simp
qed

text \<open>
  Claim C10. When the send call of \<^verbatim>\<open>send_card\<close> succeeds with the envelope the
  service gave to the message request, \<^verbatim>\<open>send_card\<close> returns \<^verbatim>\<open>None\<close>, which is not
  that envelope. \<^verbatim>\<open>send_text\<close>, \<^verbatim>\<open>send_image\<close>, \<^verbatim>\<open>send_file\<close>, \<^verbatim>\<open>send_audio\<close>
  and \<^verbatim>\<open>send_media\<close> return what their send call returns.
\<close>

theorem send_card_returns_None:
  "(send_message c E b ''interactive'' (card_content message header) w = (Inr resp, w') \<longrightarrow>
      send_card c E b message header w = (Inr JNull, w') \<and> resp \<noteq> JNull
      \<and> url (last (calls w')) = MESSAGE_API
      \<and> (\<exists>dt. respond E (butlast (calls w')) (last (calls w')) = (Inr resp, dt)))
   \<and> send_text c E b msg w = send_message c E b ''text'' (JObj [(''text'', JStr msg)]) w
   \<and> (post_file c E ''image'' img [] w = (Inr d, w1) \<longrightarrow>
        send_image c E b img w = send_message c E b ''image'' d w1)
   \<and> (post_file c E file_type f filename w = (Inr d, w1) \<longrightarrow>
        send_file c E b f file_type filename w = send_message c E b ''file'' d w1)
   \<and> (post_file c E ''opus'' audio [] w = (Inr d, w1) \<longrightarrow>
        send_audio c E b audio w = send_message c E b ''audio'' d w1)
   \<and> (cv2 E = Some first_frame \<and> media_cover first_frame media cover = Inr cover'
        \<and> post_file c E ''mp4'' media [] w = (Inr d1, w1)
        \<and> post_file c E ''image'' cover' [] w1 = (Inr d2, w2)
        \<and> py_or d1 d2 = Inr content \<longrightarrow>
        send_media c E b media cover w = send_message c E b ''media'' content w2)"
proof -
  have "send_card c E b message header w = (Inr JNull, w') \<and> resp \<noteq> JNull
      \<and> url (last (calls w')) = MESSAGE_API
      \<and> (\<exists>dt. respond E (butlast (calls w')) (last (calls w')) = (Inr resp, dt))"
    if "send_message c E b ''interactive'' (card_content message header) w = (Inr resp, w')"
    using that send_message_returns_response[OF that]
    by (cases resp) (simp_all add: send_card_def)
  then show ?thesis
    by (simp add: send_text_def send_image_def send_file_def send_audio_def send_media_def)
qed

theorem send_card_returns_None_witness:
  "(\<exists>w'. send_message example_config example_ext example_bot ''interactive''
            (card_content ''**b**'' ''H'') cached_world = (Inr example_response, w')
        \<and> send_card example_config example_ext example_bot ''**b**'' ''H'' cached_world =
            (Inr JNull, w')
        \<and> example_response \<noteq> JNull)
   \<and> fst (send_text example_config example_ext example_bot ''hello'' cached_world) =
        Inr example_response
   \<and> fst (send_image example_config example_ext example_bot (Bytes ''JPEG'') cached_world) =
        Inr example_response
   \<and> fst (send_file example_config example_ext example_bot (Str ''text'') ''stream'' ''a.txt''
        cached_world) = Inr example_response
   \<and> fst (send_audio example_config example_ext example_bot (Bytes ''OPUS'') cached_world) =
        Inr example_response
   \<and> fst (send_media example_config example_ext example_bot example_video (Bytes [])
        cached_world) = Inr example_response"
proof -
  note cw = cached_world_fields
  obtain wc where wc:
    "send_message example_config example_ext example_bot ''interactive''
       (card_content ''**b**'' ''H'') cached_world = (Inr example_response, wc)"
    using example_send_message[of cached_world] by (auto simp add: cw)
  have card: "send_card example_config example_ext example_bot ''**b**'' ''H'' cached_world =
      (Inr JNull, wc) \<and> example_response \<noteq> JNull"
    using wc send_card_returns_None[of example_config example_ext example_bot "''**b**''"
        "''H''" cached_world example_response wc]
    by simp
  have txt_ok: "fst (send_text example_config example_ext example_bot ''hello'' cached_world) =
      Inr example_response"
    using example_send_message[of cached_world "''text''" "JObj [(''text'', JStr ''hello'')]"]
      send_card_returns_None[of example_config example_ext example_bot _ _ cached_world _ _
        "''hello''"]
    by (auto simp add: cw)
  obtain di wi where wi:
    "post_file example_config example_ext ''image'' (Bytes ''JPEG'') [] cached_world = (Inr di, wi)"
    "token wi = JStr ''T''" "clock wi = 1001000" "expire_at wi = 7200000000"
    using example_post_file[of cached_world "''image''" "Bytes ''JPEG''" "[]"]
    by (auto simp add: cw)
  have img: "fst (send_image example_config example_ext example_bot (Bytes ''JPEG'') cached_world) =
      Inr example_response"
    using wi example_send_message[of wi "''image''" di]
      send_card_returns_None[where c = example_config and E = example_ext and b = example_bot
        and w = cached_world and img = "Bytes ''JPEG''" and d = di and ?w1.0 = wi]
    by auto
  obtain df wf where wf:
    "post_file example_config example_ext ''stream'' (Str ''text'') ''a.txt'' cached_world =
       (Inr df, wf)"
    "token wf = JStr ''T''" "clock wf = 1001000" "expire_at wf = 7200000000"
    using example_post_file[of cached_world "''stream''" "Str ''text''" "''a.txt''"]
    by (auto simp add: cw)
  have file_ok: "fst (send_file example_config example_ext example_bot (Str ''text'') ''stream''
      ''a.txt'' cached_world) = Inr example_response"
    using wf example_send_message[of wf "''file''" df]
      send_card_returns_None[where c = example_config and E = example_ext and b = example_bot
        and w = cached_world and f = "Str ''text''" and file_type = "''stream''"
        and filename = "''a.txt''" and d = df and ?w1.0 = wf]
    by auto
  obtain da wa where wa:
    "post_file example_config example_ext ''opus'' (Bytes ''OPUS'') [] cached_world = (Inr da, wa)"
    "token wa = JStr ''T''" "clock wa = 1001000" "expire_at wa = 7200000000"
    using example_post_file[of cached_world "''opus''" "Bytes ''OPUS''" "[]"]
    by (auto simp add: cw)
  have audio: "fst (send_audio example_config example_ext example_bot (Bytes ''OPUS'')
      cached_world) = Inr example_response"
    using wa example_send_message[of wa "''audio''" da]
      send_card_returns_None[where c = example_config and E = example_ext and b = example_bot
        and w = cached_world and audio = "Bytes ''OPUS''" and d = da and ?w1.0 = wa]
    by auto
  have cover: "media_cover (\<lambda>name. Inr ''JPEG'') example_video (Bytes []) = Inr (Bytes ''JPEG'')"
    by (simp add: media_cover_def example_video_def)
  have some: "cv2 example_ext = Some (\<lambda>name. Inr ''JPEG'')"
    by (simp add: example_ext_def)
  obtain w1 where w1:
    "post_file example_config example_ext ''mp4'' example_video [] cached_world =
       (Inr (JObj [(''file_key'', JStr ''file_1'')]), w1)"
    "token w1 = JStr ''T''" "clock w1 = 1001000" "expire_at w1 = 7200000000"
    using example_post_file[of cached_world "''mp4''" example_video "[]"]
    by (auto simp add: cw)
  obtain w2 where w2:
    "post_file example_config example_ext ''image'' (Bytes ''JPEG'') [] w1 =
       (Inr (JObj [(''image_key'', JStr ''img_1'')]), w2)"
    "token w2 = JStr ''T''" "clock w2 = 1002000" "expire_at w2 = 7200000000"
    using example_post_file[of w1 "''image''" "Bytes ''JPEG''" "[]"] w1
    by auto
  have union: "py_or (JObj [(''file_key'', JStr ''file_1'')]) (JObj [(''image_key'', JStr ''img_1'')]) =
      Inr (JObj [(''file_key'', JStr ''file_1''), (''image_key'', JStr ''img_1'')])"
    by simp
  have media: "fst (send_media example_config example_ext example_bot example_video (Bytes [])
      cached_world) = Inr example_response"
    using cover some w1(1) w2 union
      example_send_message[of w2 "''media''"
        "JObj [(''file_key'', JStr ''file_1''), (''image_key'', JStr ''img_1'')]"]
      send_card_returns_None[where c = example_config and E = example_ext and b = example_bot
        and w = cached_world and media = example_video and cover = "Bytes []"
        and first_frame = "\<lambda>name. Inr ''JPEG''" and cover' = "Bytes ''JPEG''"
        and ?d1.0 = "JObj [(''file_key'', JStr ''file_1'')]" and ?w1.0 = w1
        and ?d2.0 = "JObj [(''image_key'', JStr ''img_1'')]" and ?w2.0 = w2
        and content = "JObj [(''file_key'', JStr ''file_1''), (''image_key'', JStr ''img_1'')]"]
    by auto
  show ?thesis
    using wc card txt_ok img file_ok audio media by blast
qed

end
